theory Spec2Isabelle
  imports Main "HOL-Library.Word"
begin

section \<open>JSON values as the client sees them\<close>

text \<open>
  \<^verbatim>\<open>response.json()\<close> hands the client a tree of Python objects: \<^verbatim>\<open>None\<close>, \<^verbatim>\<open>bool\<close>,
  \<^verbatim>\<open>int\<close>, \<^verbatim>\<open>float\<close>, \<^verbatim>\<open>str\<close>, \<^verbatim>\<open>list\<close> and \<^verbatim>\<open>dict\<close> with \<^verbatim>\<open>str\<close> keys. A Python \<^verbatim>\<open>int\<close>
  is unbounded, a \<^verbatim>\<open>float\<close> is the 64 bits of an IEEE double, a \<^verbatim>\<open>str\<close> is kept as its
  UTF-8 bytes, and a \<^verbatim>\<open>dict\<close> keeps its insertion order, so it is an association list
  (the parser leaves no duplicate key; lookup takes the first binding). A JSON
  escape such as \<^verbatim>\<open>"\ud800"\<close> puts a lone surrogate into a \<^verbatim>\<open>str\<close>; it is kept as the
  three bytes that the UTF-8 scheme gives it, \<open>0xED\<close> and then a byte from \<open>0xA0\<close> to
  \<open>0xBF\<close>, a pair that no other code point produces.
\<close>

datatype json =
    JNull
  | JBool bool
  | JInt int
  | JFloat "64 word"
  | JStr string
  | JList "json list"
  | JObj "(string \<times> json) list"

text \<open>The exceptions the client code can meet; all of them derive from \<^verbatim>\<open>Exception\<close>.
  \<open>ExchangeError\<close> is the plain \<^verbatim>\<open>Exception\<close> that \<^verbatim>\<open>_send_envelope\<close> raises from its two
  handlers; \<open>UnicodeEncodeError\<close> is what \<^verbatim>\<open>print\<close> raises for a text that standard
  output cannot encode.\<close>

datatype py_error =
  AttributeError | TypeError | KeyError | IndexError | ExchangeError | UnicodeEncodeError

type_synonym 'a result = "py_error + 'a"

definition bind :: "'a result \<Rightarrow> ('a \<Rightarrow> 'b result) \<Rightarrow> 'b result" where
  "bind r f = (case r of Inl e \<Rightarrow> Inl e | Inr v \<Rightarrow> f v)"

subsection \<open>Strings\<close>

text \<open>A \<^verbatim>\<open>str\<close> is indexed and iterated by code point: in UTF-8 a code point is a lead
  byte followed by its continuation bytes (\<open>0x80\<close> to \<open>0xBF\<close>).\<close>

definition is_continuation :: "char \<Rightarrow> bool" where
  "is_continuation c = (128 \<le> (of_char c :: nat) \<and> (of_char c :: nat) < 192)"

function code_points :: "string \<Rightarrow> string list" where
  "code_points [] = []"
| "code_points (c # cs) =
     (c # takeWhile is_continuation cs) # code_points (dropWhile is_continuation cs)"
  by pat_completeness auto
termination
  by (relation "measure length") (auto simp: length_dropWhile_le less_Suc_eq_le)

fun starts_with :: "string \<Rightarrow> string \<Rightarrow> bool" where
  "starts_with [] s = True"
| "starts_with (c # cs) [] = False"
| "starts_with (c # cs) (d # ds) = (c = d \<and> starts_with cs ds)"

text \<open>\<^verbatim>\<open>needle in s\<close> for two strings: \<open>needle\<close> occurs in \<open>s\<close>.\<close>

fun occurs_in :: "string \<Rightarrow> string \<Rightarrow> bool" where
  "occurs_in needle [] = (needle = [])"
| "occurs_in needle (c # cs) = (starts_with needle (c # cs) \<or> occurs_in needle cs)"

text \<open>The text holds a lone surrogate: the byte \<open>0xED\<close> followed by a byte from \<open>0xA0\<close>
  to \<open>0xBF\<close>.\<close>

fun has_surrogate :: "string \<Rightarrow> bool" where
  "has_surrogate (c # d # cs) =
     (((of_char c :: nat) = 237 \<and> 160 \<le> (of_char d :: nat) \<and> (of_char d :: nat) < 192)
      \<or> has_surrogate (d # cs))"
| "has_surrogate cs = False"

text \<open>\<^verbatim>\<open>sep.join(parts)\<close> on strings.\<close>

fun join :: "string \<Rightarrow> string list \<Rightarrow> string" where
  "join sep [] = []"
| "join sep [s] = s"
| "join sep (s # t # ts) = s @ sep @ join sep (t # ts)"

text \<open>\<^verbatim>\<open>str(n)\<close> for an \<^verbatim>\<open>int\<close>: decimal digits, with a minus sign below zero.\<close>

definition digit_char :: "nat \<Rightarrow> char" where
  "digit_char d = char_of (48 + d)"

fun digits_of :: "nat \<Rightarrow> string" where
  "digits_of n = (if n < 10 then [digit_char n] else digits_of (n div 10) @ [digit_char (n mod 10)])"

declare digits_of.simps [simp del]

definition str_int :: "int \<Rightarrow> string" where
  "str_int i = (if i < 0 then CHR ''-'' # digits_of (nat (- i)) else digits_of (nat i))"

subsection \<open>Outbound protocol objects\<close>

text \<open>The classes of the \<^verbatim>\<open>openfloor\<close> package that the client builds, with the fields
  the client gives them.\<close>

datatype conversation = Conversation (conversation_ident: string)

datatype sender = Sender (sender_speakerUri: string)

datatype to = To (serviceUrl: string)

datatype text_feature = TextFeature (feature_values: "string list")

datatype dialog_event =
  DialogEvent (event_speakerUri: string) (features: "(string \<times> text_feature) list")

datatype event =
    GetManifestsEvent (event_to: to)
  | UtteranceEvent (dialogEvent: dialog_event) (event_to: to)

record envelope =
  conversation :: conversation
  sender :: sender
  events :: "event list"

subsection \<open>What lies outside the client\<close>

text \<open>
  The outcome of \<^verbatim>\<open>requests.post\<close>: the call raises a \<^verbatim>\<open>RequestException\<close> (no
  connection, timeout), or a response arrives with a status code and a body, which
  is JSON or not.
\<close>

datatype http_outcome = RequestFailed | Responded nat "json option"

text \<open>
  The client runs against parts that are no code of its own; the model takes them
  as parameters, and every result below holds for all of them. A world is what one
  call of an operation meets: each call builds one envelope and makes one POST.
  \<^item> \<open>new_conversation\<close>: what the package's \<^verbatim>\<open>Conversation()\<close>, called with no
    argument, returns;
  \<^item> \<open>http_post\<close>: the agent and the network, from the target URL and the posted
    envelope to the outcome of the exchange;
  \<^item> \<open>stdout_encodes\<close>: whether standard output writes a text that holds a lone
    surrogate (its error handler decides; the strict one, the default, does not);
  \<^item> \<open>float_str\<close>: \<^verbatim>\<open>str\<close> of a \<^verbatim>\<open>float\<close> (its shortest decimal that reads back);
  \<^item> \<open>str_repr\<close>: \<^verbatim>\<open>repr\<close> of a \<^verbatim>\<open>str\<close> (quoting and escaping, by the Unicode classes).
\<close>

record world =
  new_conversation :: conversation
  http_post :: "string \<Rightarrow> envelope \<Rightarrow> http_outcome"
  stdout_encodes :: "string \<Rightarrow> bool"
  float_str :: "64 word \<Rightarrow> string"
  str_repr :: "string \<Rightarrow> string"

subsection \<open>Truth values and rendering\<close>

text \<open>\<^verbatim>\<open>bool(x)\<close>: the truth value of an object, as \<^verbatim>\<open>if x:\<close> tests it. A float is false
  when it is \<open>0.0\<close> or \<open>-0.0\<close>, that is when all bits but the sign are clear.\<close>

fun truthy :: "json \<Rightarrow> bool" where
  "truthy JNull = False"
| "truthy (JBool b) = b"
| "truthy (JInt i) = (i \<noteq> 0)"
| "truthy (JFloat w) = (push_bit 1 w \<noteq> 0)"
| "truthy (JStr s) = (s \<noteq> [])"
| "truthy (JList xs) = (xs \<noteq> [])"
| "truthy (JObj kvs) = (kvs \<noteq> [])"

text \<open>\<^verbatim>\<open>str(x)\<close> and \<^verbatim>\<open>repr(x)\<close>; they differ on strings only. An f-string field
  \<^verbatim>\<open>{x}\<close> renders these objects as \<^verbatim>\<open>str(x)\<close>.\<close>

fun py_repr :: "world \<Rightarrow> json \<Rightarrow> string" where
  "py_repr W JNull = ''None''"
| "py_repr W (JBool b) = (if b then ''True'' else ''False'')"
| "py_repr W (JInt i) = str_int i"
| "py_repr W (JFloat w) = float_str W w"
| "py_repr W (JStr s) = str_repr W s"
| "py_repr W (JList xs) = ''['' @ join '', '' (map (py_repr W) xs) @ '']''"
| "py_repr W (JObj kvs) =
     ''{'' @ join '', '' (map (\<lambda>kv. str_repr W (fst kv) @ '': '' @ py_repr W (snd kv)) kvs) @ ''}''"

definition py_str :: "world \<Rightarrow> json \<Rightarrow> string" where
  "py_str W x = (case x of JStr s \<Rightarrow> s | _ \<Rightarrow> py_repr W x)"

subsection \<open>The operations the client applies to response data\<close>

text \<open>\<^verbatim>\<open>x.get(key, default)\<close>: only a \<^verbatim>\<open>dict\<close> has the method.\<close>

fun py_get :: "json \<Rightarrow> string \<Rightarrow> json \<Rightarrow> json result" where
  "py_get (JObj kvs) k d = Inr (case map_of kvs k of None \<Rightarrow> d | Some v \<Rightarrow> v)"
| "py_get _ k d = Inl AttributeError"

text \<open>\<^verbatim>\<open>'key' in x\<close>: key membership in a \<^verbatim>\<open>dict\<close>, element membership in a \<^verbatim>\<open>list\<close>,
  substring test in a \<^verbatim>\<open>str\<close>, \<^verbatim>\<open>TypeError\<close> on the rest.\<close>

fun py_in :: "string \<Rightarrow> json \<Rightarrow> bool result" where
  "py_in k (JObj kvs) = Inr (map_of kvs k \<noteq> None)"
| "py_in k (JList xs) = Inr (JStr k \<in> set xs)"
| "py_in k (JStr s) = Inr (occurs_in k s)"
| "py_in k _ = Inl TypeError"

text \<open>\<^verbatim>\<open>x['key']\<close>.\<close>

fun py_item :: "json \<Rightarrow> string \<Rightarrow> json result" where
  "py_item (JObj kvs) k = (case map_of kvs k of None \<Rightarrow> Inl KeyError | Some v \<Rightarrow> Inr v)"
| "py_item _ k = Inl TypeError"

text \<open>\<^verbatim>\<open>x[0]\<close>: the first element of a \<^verbatim>\<open>list\<close>, the first code point of a \<^verbatim>\<open>str\<close>; a
  \<^verbatim>\<open>dict\<close> from JSON has no key \<open>0\<close>.\<close>

fun py_first :: "json \<Rightarrow> json result" where
  "py_first (JList []) = Inl IndexError"
| "py_first (JList (x # xs)) = Inr x"
| "py_first (JStr []) = Inl IndexError"
| "py_first (JStr (c # cs)) = Inr (JStr (c # takeWhile is_continuation cs))"
| "py_first (JObj kvs) = Inl KeyError"
| "py_first _ = Inl TypeError"

text \<open>\<^verbatim>\<open>for e in x\<close>: the elements of a \<^verbatim>\<open>list\<close>, the code points of a \<^verbatim>\<open>str\<close>, the keys
  of a \<^verbatim>\<open>dict\<close>.\<close>

fun py_iter :: "json \<Rightarrow> json list result" where
  "py_iter (JList xs) = Inr xs"
| "py_iter (JStr s) = Inr (map JStr (code_points s))"
| "py_iter (JObj kvs) = Inr (map (\<lambda>kv. JStr (fst kv)) kvs)"
| "py_iter _ = Inl TypeError"

text \<open>\<^verbatim>\<open>len(x)\<close>.\<close>

fun py_len :: "json \<Rightarrow> nat result" where
  "py_len (JList xs) = Inr (length xs)"
| "py_len (JStr s) = Inr (length (code_points s))"
| "py_len (JObj kvs) = Inr (length kvs)"
| "py_len _ = Inl TypeError"

text \<open>\<^verbatim>\<open>sep.join(items)\<close> on objects: every item has to be a \<^verbatim>\<open>str\<close>.\<close>

fun as_strings :: "json list \<Rightarrow> string list result" where
  "as_strings [] = Inr []"
| "as_strings (JStr s # xs) = bind (as_strings xs) (\<lambda>ss. Inr (s # ss))"
| "as_strings (_ # xs) = Inl TypeError"

definition py_join :: "string \<Rightarrow> json list \<Rightarrow> json result" where
  "py_join sep xs = bind (as_strings xs) (\<lambda>ss. Inr (JStr (join sep ss)))"

section \<open>The client\<close>

subsection \<open>Session\<close>

text \<open>The fields that \<^verbatim>\<open>OpenFloorClient.__init__\<close> sets.\<close>

record session =
  speaker_uri :: string
  service_url :: string
  conversation_id :: string

text \<open>\<^verbatim>\<open>x or default\<close> on an optional string: \<^verbatim>\<open>None\<close> and the empty string are false.\<close>

definition or_default :: "string option \<Rightarrow> string \<Rightarrow> string" where
  "or_default x d = (case x of None \<Rightarrow> d | Some s \<Rightarrow> if s = [] then d else s)"

text \<open>\<^verbatim>\<open>__init__\<close>; \<open>hex1\<close> and \<open>hex2\<close> are the two draws of \<^verbatim>\<open>uuid.uuid4().hex[:8]\<close>.\<close>

definition init :: "string \<Rightarrow> string \<Rightarrow> string option \<Rightarrow> string option \<Rightarrow> session" where
  "init hex1 hex2 speaker service =
     \<lparr> speaker_uri = or_default speaker (''client:'' @ hex1),
       service_url = or_default service ''http://localhost:3000/'',
       conversation_id = ''conv_'' @ hex2 \<rparr>"

subsection \<open>Diagnostics\<close>

text \<open>
  The operations report on standard output with \<^verbatim>\<open>print\<close>. Each operation prints a
  line with a sign outside the Basic Multilingual Plane before its \<^verbatim>\<open>try\<close>, so
  standard output, where a call gets as far as its \<^verbatim>\<open>try\<close>, has a Unicode encoding:
  it writes every text that holds no lone surrogate, and a text that holds one when
  its error handler lets it. The lines made of fixed text and of the message of an
  exception hold none and are not modelled. Three lines inside a \<^verbatim>\<open>try\<close> are made from
  data, and an exception there ends the operation like any other: the target URL
  before the POST, the count \<^verbatim>\<open>len(manifests)\<close> of the manifests found (digits, so only
  \<^verbatim>\<open>len\<close> can raise), and the reply text.
\<close>

definition printable :: "world \<Rightarrow> string \<Rightarrow> bool" where
  "printable W text = (\<not> has_surrogate text \<or> stdout_encodes W text)"

definition py_print :: "world \<Rightarrow> string \<Rightarrow> unit result" where
  "py_print W text = (if printable W text then Inr () else Inl UnicodeEncodeError)"

subsection \<open>Envelopes and the exchange\<close>

text \<open>\<^verbatim>\<open>_create_envelope\<close>: the conversation is \<^verbatim>\<open>Conversation()\<close>, the sender carries the
  session's speaker URI.\<close>

definition create_envelope :: "world \<Rightarrow> session \<Rightarrow> event list \<Rightarrow> envelope" where
  "create_envelope W self evs =
     \<lparr> conversation = new_conversation W,
       sender = Sender (speaker_uri self),
       events = evs \<rparr>"

text \<open>\<^verbatim>\<open>response.raise_for_status()\<close> of the \<^verbatim>\<open>requests\<close> package raises for the client
  and server error codes, 400 to 599, and for no other status.\<close>

definition raises_for_status :: "nat \<Rightarrow> bool" where
  "raises_for_status status = (400 \<le> status \<and> status < 600)"

text \<open>The line \<^verbatim>\<open>f"<outbox sign> Sending request to: {target_url}"\<close>; the sign is
  U+1F4E4, four bytes in UTF-8.\<close>

definition sending_line :: "string \<Rightarrow> string" where
  "sending_line target_url =
     [CHR 0xF0, CHR 0x9F, CHR 0x93, CHR 0xA4] @ '' Sending request to: '' @ target_url"

text \<open>\<^verbatim>\<open>_send_envelope\<close>: the target URL is printed, then one POST is made; a raising
  \<^verbatim>\<open>requests.post\<close>, a status that \<^verbatim>\<open>raise_for_status\<close> rejects and a body that is no
  JSON each end in a raised \<^verbatim>\<open>Exception\<close>.\<close>

definition send_envelope :: "world \<Rightarrow> envelope \<Rightarrow> string \<Rightarrow> json result" where
  "send_envelope W env target_url =
     bind (py_print W (sending_line target_url)) (\<lambda>u.
       case http_post W target_url env of
         RequestFailed \<Rightarrow> Inl ExchangeError
       | Responded status body \<Rightarrow>
           if raises_for_status status then Inl ExchangeError
           else (case body of None \<Rightarrow> Inl ExchangeError | Some response_data \<Rightarrow> Inr response_data))"

subsection \<open>Manifest discovery\<close>

text \<open>The envelope that \<^verbatim>\<open>get_manifest\<close> builds and posts.\<close>

definition manifest_request :: "world \<Rightarrow> session \<Rightarrow> string \<Rightarrow> envelope" where
  "manifest_request W self agent_url =
     create_envelope W self [GetManifestsEvent (To agent_url)]"

text \<open>The body of the loop over the inbound events: \<open>Some\<close> is a \<^verbatim>\<open>return\<close>, \<open>None\<close>
  goes on to the next event. Before it returns, the client prints the number of
  manifests found, which takes \<^verbatim>\<open>len(manifests)\<close>; the line itself is digits among
  fixed text.\<close>

definition manifests_of_event :: "json \<Rightarrow> json option result" where
  "manifests_of_event event =
     bind (py_get event ''eventType'' JNull) (\<lambda>event_type.
       if event_type = JStr ''publishManifests'' then
         bind (py_get event ''parameters'' (JObj [])) (\<lambda>parameters.
         bind (py_get parameters ''servicingManifests'' (JList [])) (\<lambda>manifests.
           if truthy manifests then
             bind (py_len manifests) (\<lambda>n. Inr (Some manifests))
           else Inr None))
       else Inr None)"

fun find_manifests :: "json list \<Rightarrow> json result" where
  "find_manifests [] = Inr (JList [])"
| "find_manifests (event # rest) =
     (case manifests_of_event event of
        Inl e \<Rightarrow> Inl e
      | Inr (Some manifests) \<Rightarrow> Inr manifests
      | Inr None \<Rightarrow> find_manifests rest)"

text \<open>What \<^verbatim>\<open>get_manifest\<close> does with the response data: \<open>Inr None\<close> is
  \<^verbatim>\<open>return None\<close> on a response without the wrapper key.\<close>

definition manifests_of_response :: "json \<Rightarrow> json option result" where
  "manifests_of_response response_data =
     bind (py_in ''openFloor'' response_data) (\<lambda>wrapped.
       if wrapped then
         bind (py_item response_data ''openFloor'') (\<lambda>envelope_data.
         bind (py_get envelope_data ''events'' (JList [])) (\<lambda>evs.
         bind (py_iter evs) (\<lambda>inbound.
         bind (find_manifests inbound) (\<lambda>manifests. Inr (Some manifests)))))
       else Inr None)"

text \<open>\<^verbatim>\<open>except Exception\<close> at the end of both operations turns a raised exception into
  \<^verbatim>\<open>None\<close>.\<close>

definition caught :: "'a option result \<Rightarrow> 'a option" where
  "caught r = (case r of Inl e \<Rightarrow> None | Inr v \<Rightarrow> v)"

text \<open>\<^verbatim>\<open>get_manifest\<close>, returning the session after the call with the result.\<close>

definition get_manifest :: "world \<Rightarrow> session \<Rightarrow> string \<Rightarrow> session \<times> json option" where
  "get_manifest W self agent_url =
     (self, caught (bind (send_envelope W (manifest_request W self agent_url) agent_url)
                         manifests_of_response))"

subsection \<open>Chat\<close>

text \<open>The envelope that \<^verbatim>\<open>send_message\<close> builds and posts.\<close>

definition utterance_request :: "world \<Rightarrow> session \<Rightarrow> string \<Rightarrow> string \<Rightarrow> envelope" where
  "utterance_request W self agent_url message =
     create_envelope W self
       [UtteranceEvent
          (DialogEvent (speaker_uri self) [(''text'', TextFeature [message])])
          (To agent_url)]"

text \<open>\<^verbatim>\<open>'key' in x and x['key']\<close>, as a condition.\<close>

definition has_truthy :: "string \<Rightarrow> json \<Rightarrow> bool result" where
  "has_truthy k x =
     bind (py_in k x) (\<lambda>present.
       if present then bind (py_item x k) (\<lambda>v. Inr (truthy v)) else Inr False)"

text \<open>The generator \<^verbatim>\<open>token.get('value', '') for token in tokens if 'value' in token\<close>.\<close>

fun token_values :: "json list \<Rightarrow> json list result" where
  "token_values [] = Inr []"
| "token_values (token # rest) =
     (case py_in ''value'' token of
        Inl e \<Rightarrow> Inl e
      | Inr False \<Rightarrow> token_values rest
      | Inr True \<Rightarrow>
          (case py_get token ''value'' (JStr []) of
             Inl e \<Rightarrow> Inl e
           | Inr v \<Rightarrow> (case token_values rest of Inl e \<Rightarrow> Inl e | Inr vs \<Rightarrow> Inr (v # vs))))"

text \<open>The three ways to read the text of a text feature.\<close>

definition extract_text :: "world \<Rightarrow> json \<Rightarrow> json result" where
  "extract_text W text_feature =
     bind (has_truthy ''values'' text_feature) (\<lambda>use_values.
       if use_values then bind (py_item text_feature ''values'') py_first
       else
         bind (has_truthy ''tokens'' text_feature) (\<lambda>use_tokens.
           if use_tokens then
             bind (py_item text_feature ''tokens'') (\<lambda>tokens.
             bind (py_iter tokens) (\<lambda>ts.
             bind (token_values ts) (py_join [])))
           else
             bind (py_get text_feature ''value'' (JStr [])) (\<lambda>v. Inr (JStr (py_str W v)))))"

text \<open>The descent \<^verbatim>\<open>parameters.dialogEvent.features.text\<close> into an event, each step a
  \<^verbatim>\<open>.get\<close> with the default \<^verbatim>\<open>{}\<close>.\<close>

definition text_feature_of :: "json \<Rightarrow> json result" where
  "text_feature_of event =
     bind (py_get event ''parameters'' (JObj [])) (\<lambda>parameters.
     bind (py_get parameters ''dialogEvent'' (JObj [])) (\<lambda>dialog_event.
     bind (py_get dialog_event ''features'' (JObj [])) (\<lambda>feats.
       py_get feats ''text'' (JObj []))))"

text \<open>The line \<^verbatim>\<open>f"<envelope sign> Agent replied: {response_text}"\<close>; the sign is
  U+1F4E8, four bytes in UTF-8.\<close>

definition reply_line :: "world \<Rightarrow> json \<Rightarrow> string" where
  "reply_line W response_text =
     [CHR 0xF0, CHR 0x9F, CHR 0x93, CHR 0xA8] @ '' Agent replied: '' @ py_str W response_text"

text \<open>The body of the loop over the inbound events of a reply. Before it returns, the
  client prints the reply.\<close>

definition reply_of_event :: "world \<Rightarrow> json \<Rightarrow> json option result" where
  "reply_of_event W event =
     bind (py_get event ''eventType'' JNull) (\<lambda>event_type.
       if event_type = JStr ''utterance'' then
         bind (text_feature_of event) (\<lambda>text_feature.
         bind (extract_text W text_feature) (\<lambda>response_text.
           if truthy response_text then
             bind (py_print W (reply_line W response_text)) (\<lambda>u.
               Inr (Some response_text))
           else Inr None))
       else Inr None)"

definition no_response :: string where
  "no_response = ''Agent sent no response''"

fun find_reply :: "world \<Rightarrow> json list \<Rightarrow> json result" where
  "find_reply W [] = Inr (JStr no_response)"
| "find_reply W (event # rest) =
     (case reply_of_event W event of
        Inl e \<Rightarrow> Inl e
      | Inr (Some response_text) \<Rightarrow> Inr response_text
      | Inr None \<Rightarrow> find_reply W rest)"

definition reply_of_response :: "world \<Rightarrow> json \<Rightarrow> json option result" where
  "reply_of_response W response_data =
     bind (py_in ''openFloor'' response_data) (\<lambda>wrapped.
       if wrapped then
         bind (py_item response_data ''openFloor'') (\<lambda>envelope_data.
         bind (py_get envelope_data ''events'' (JList [])) (\<lambda>evs.
         bind (py_iter evs) (\<lambda>inbound.
         bind (find_reply W inbound) (\<lambda>response_text. Inr (Some response_text)))))
       else Inr None)"

text \<open>\<^verbatim>\<open>send_message\<close>, returning the session after the call with the result.\<close>

definition send_message :: "world \<Rightarrow> session \<Rightarrow> string \<Rightarrow> string \<Rightarrow> session \<times> json option" where
  "send_message W self agent_url message =
     (self, caught (bind (send_envelope W (utterance_request W self agent_url message) agent_url)
                         (reply_of_response W)))"

subsection \<open>Display of manifests\<close>

text \<open>The header \<^verbatim>\<open>f"\n<clipboard sign> Manifest {i + 1}:"\<close>; the sign is U+1F4CB, four bytes
  in UTF-8.\<close>

definition header_line :: "nat \<Rightarrow> string" where
  "header_line i =
     [CHR 0x0A, CHR 0xF0, CHR 0x9F, CHR 0x93, CHR 0x8B] @ '' Manifest '' @ digits_of (i + 1) @ '':''"

text \<open>One line \<^verbatim>\<open>f"<label>{identification.get(key, default)}"\<close>.\<close>

definition field_line :: "world \<Rightarrow> string \<Rightarrow> json \<Rightarrow> string \<Rightarrow> string \<Rightarrow> string result" where
  "field_line W label identification k d =
     bind (py_get identification k (JStr d)) (\<lambda>v. Inr (label @ py_str W v))"

definition identification_lines :: "world \<Rightarrow> json \<Rightarrow> string list result" where
  "identification_lines W manifest =
     bind (py_get manifest ''identification'' (JObj [])) (\<lambda>identification.
       if truthy identification then
         bind (field_line W ''  Name: '' identification ''conversationalName'' ''Unknown'') (\<lambda>l1.
         bind (field_line W ''  Organization: '' identification ''organization'' ''Unknown'') (\<lambda>l2.
         bind (field_line W ''  Description: '' identification ''synopsis'' ''No description'') (\<lambda>l3.
         bind (field_line W ''  Speaker URI: '' identification ''speakerUri'' ''Unknown'') (\<lambda>l4.
           Inr [l1, l2, l3, l4]))))
       else Inr [])"

text \<open>The lines of capability number \<open>j\<close> (counted from 0, shown from 1).\<close>

definition capability_lines :: "world \<Rightarrow> nat \<Rightarrow> json \<Rightarrow> string list result" where
  "capability_lines W j capability =
     bind (py_get capability ''keyphrases'' (JList [])) (\<lambda>keyphrases.
     bind (py_iter keyphrases) (\<lambda>ks.
     bind (as_strings ks) (\<lambda>phrases.
     bind (py_get capability ''descriptions'' (JList [])) (\<lambda>descriptions.
       if truthy descriptions then
         bind (py_first descriptions) (\<lambda>d.
           Inr [''    '' @ digits_of (j + 1) @ ''. Keywords: '' @ join '', '' phrases,
                ''       Description: '' @ py_str W d])
       else Inr [''    '' @ digits_of (j + 1) @ ''. Keywords: '' @ join '', '' phrases]))))"

fun capabilities_loop :: "world \<Rightarrow> nat \<Rightarrow> json list \<Rightarrow> string list result" where
  "capabilities_loop W j [] = Inr []"
| "capabilities_loop W j (capability # rest) =
     (case capability_lines W j capability of
        Inl e \<Rightarrow> Inl e
      | Inr ls \<Rightarrow>
          (case capabilities_loop W (j + 1) rest of
             Inl e \<Rightarrow> Inl e
           | Inr ls2 \<Rightarrow> Inr (ls @ ls2)))"

definition capabilities_lines :: "world \<Rightarrow> json \<Rightarrow> string list result" where
  "capabilities_lines W manifest =
     bind (py_get manifest ''capabilities'' (JList [])) (\<lambda>capabilities.
       if truthy capabilities then
         bind (py_len capabilities) (\<lambda>n.
         bind (py_iter capabilities) (\<lambda>cs.
         bind (capabilities_loop W 0 cs) (\<lambda>ls.
           Inr ((''  Capabilities: '' @ digits_of n) # ls))))
       else Inr [])"

definition manifest_lines :: "world \<Rightarrow> nat \<Rightarrow> json \<Rightarrow> string list result" where
  "manifest_lines W i manifest =
     bind (identification_lines W manifest) (\<lambda>ident.
     bind (capabilities_lines W manifest) (\<lambda>caps.
       Inr (header_line i # ident @ caps)))"

fun manifests_loop :: "world \<Rightarrow> nat \<Rightarrow> json list \<Rightarrow> string list result" where
  "manifests_loop W i [] = Inr []"
| "manifests_loop W i (manifest # rest) =
     (case manifest_lines W i manifest of
        Inl e \<Rightarrow> Inl e
      | Inr ls \<Rightarrow>
          (case manifests_loop W (i + 1) rest of
             Inl e \<Rightarrow> Inl e
           | Inr ls2 \<Rightarrow> Inr (ls @ ls2)))"

text \<open>\<^verbatim>\<open>format_manifest\<close> has no handler of its own: an exception goes to the caller.\<close>

definition format_manifest :: "world \<Rightarrow> json \<Rightarrow> string result" where
  "format_manifest W manifests =
     (if \<not> truthy manifests then Inr ''No manifests available''
      else
        bind (py_iter manifests) (\<lambda>ms.
        bind (manifests_loop W 0 ms) (\<lambda>ls.
          Inr (join [CHR 0x0A] ls))))"

section \<open>Notions of the specification\<close>

text \<open>An inbound event is a JSON object; it is tagged \<open>t\<close> when its \<^verbatim>\<open>eventType\<close> is the
  string \<open>t\<close>.\<close>

definition is_object :: "json \<Rightarrow> bool" where
  "is_object x = (case x of JObj kvs \<Rightarrow> True | _ \<Rightarrow> False)"

definition is_string :: "json \<Rightarrow> bool" where
  "is_string x = (case x of JStr s \<Rightarrow> True | _ \<Rightarrow> False)"

definition tagged :: "string \<Rightarrow> json \<Rightarrow> bool" where
  "tagged t event =
     (case event of JObj kvs \<Rightarrow> map_of kvs ''eventType'' = Some (JStr t) | _ \<Rightarrow> False)"

text \<open>The response has the top-level wrapper key: it is an object with the key
  \<^verbatim>\<open>openFloor\<close>.\<close>

definition has_wrapper :: "json \<Rightarrow> bool" where
  "has_wrapper response_data =
     (case response_data of JObj kvs \<Rightarrow> map_of kvs ''openFloor'' \<noteq> None | _ \<Rightarrow> False)"

text \<open>The inbound event list of a response: the wrapper holds an object whose
  \<^verbatim>\<open>events\<close> is a list, or is absent, which the client reads as the empty list.\<close>

definition inbound_events :: "json \<Rightarrow> json list option" where
  "inbound_events response_data =
     (case response_data of
        JObj kvs \<Rightarrow>
          (case map_of kvs ''openFloor'' of
             Some (JObj env) \<Rightarrow>
               (case map_of env ''events'' of
                  None \<Rightarrow> Some []
                | Some (JList evs) \<Rightarrow> Some evs
                | Some _ \<Rightarrow> None)
           | _ \<Rightarrow> None)
      | _ \<Rightarrow> None)"

text \<open>The manifest list that an event publishes: \<^verbatim>\<open>parameters.servicingManifests\<close>,
  each step with the client's default.\<close>

definition published :: "json \<Rightarrow> json result" where
  "published event =
     bind (py_get event ''parameters'' (JObj [])) (\<lambda>parameters.
       py_get parameters ''servicingManifests'' (JList []))"

text \<open>The text that an event utters: the text of its text feature.\<close>

definition uttered :: "world \<Rightarrow> json \<Rightarrow> json result" where
  "uttered W event = bind (text_feature_of event) (extract_text W)"

text \<open>An event that the scan for manifests passes over: an object that is not
  tagged \<^verbatim>\<open>publishManifests\<close>, or one that publishes a false (empty) list.\<close>

definition no_manifests_in :: "json \<Rightarrow> bool" where
  "no_manifests_in event =
     (is_object event \<and>
      (if tagged ''publishManifests'' event
       then (case published event of Inr l \<Rightarrow> \<not> truthy l | Inl e \<Rightarrow> False)
       else True))"

text \<open>An event that the scan for a reply passes over: an object that is not tagged
  \<^verbatim>\<open>utterance\<close>, or one whose text is false (empty).\<close>

definition no_reply_in :: "world \<Rightarrow> json \<Rightarrow> bool" where
  "no_reply_in W event =
     (is_object event \<and>
      (if tagged ''utterance'' event
       then (case uttered W event of Inr t \<Rightarrow> \<not> truthy t | Inl e \<Rightarrow> False)
       else True))"

text \<open>The claims as the specification words them: the manifest list of the first
  event tagged \<^verbatim>\<open>publishManifests\<close>, the empty list when there is none.\<close>

definition spec_first_published :: "json list \<Rightarrow> json result" where
  "spec_first_published evs =
     (case find (tagged ''publishManifests'') evs of
        None \<Rightarrow> Inr (JList [])
      | Some event \<Rightarrow> published event)"

text \<open>A tier of the text extraction matches a text feature when its key is present
  with a true (non-empty) value.\<close>

definition tier_matches :: "(string \<times> json) list \<Rightarrow> string \<Rightarrow> bool" where
  "tier_matches tf k = (case map_of tf k of None \<Rightarrow> False | Some v \<Rightarrow> truthy v)"

text \<open>The text of a list of tokens, each with or without a value: the values in
  order, with nothing between them.\<close>

definition token_text :: "string option list \<Rightarrow> string" where
  "token_text toks = concat (map (\<lambda>v. case v of None \<Rightarrow> [] | Some s \<Rightarrow> s) toks)"

text \<open>The inbound events as the client's loop meets them.\<close>

definition events_of_response :: "json \<Rightarrow> json list result" where
  "events_of_response response_data =
     bind (py_item response_data ''openFloor'') (\<lambda>envelope_data.
     bind (py_get envelope_data ''events'' (JList [])) py_iter)"

text \<open>What a line of the identification block shows for the key \<open>k\<close>: the field, or
  the default label when it is absent.\<close>

definition shown :: "world \<Rightarrow> (string \<times> json) list \<Rightarrow> string \<Rightarrow> string \<Rightarrow> string" where
  "shown W ident k d = (case map_of ident k of None \<Rightarrow> d | Some v \<Rightarrow> py_str W v)"

text \<open>The HTTP exchange fails in transport: \<^verbatim>\<open>requests.post\<close> raised (no connection,
  timeout), or the status is one that \<^verbatim>\<open>raise_for_status\<close> rejects, from 400 to 599.\<close>

definition transport_fails :: "http_outcome \<Rightarrow> bool" where
  "transport_fails outcome =
     (case outcome of
        RequestFailed \<Rightarrow> True
      | Responded status body \<Rightarrow> 400 \<le> status \<and> status < 600)"

text \<open>The status is outside 200 to 299, what the specification counts as a failure.\<close>

definition non_2xx :: "nat \<Rightarrow> bool" where
  "non_2xx status = (\<not> (200 \<le> status \<and> status < 300))"

text \<open>A block of a manifest is there when its key is present with a true
  (non-empty) value: the client's conditions \<^verbatim>\<open>if identification:\<close> and
  \<^verbatim>\<open>if capabilities:\<close>.\<close>

definition has_block :: "(string \<times> json) list \<Rightarrow> string \<Rightarrow> bool" where
  "has_block kvs k = (case map_of kvs k of None \<Rightarrow> False | Some v \<Rightarrow> truthy v)"

text \<open>The object has a length: it is a list, a string or a dictionary.\<close>

definition has_length :: "json \<Rightarrow> bool" where
  "has_length x = (case py_len x of Inl e \<Rightarrow> False | Inr n \<Rightarrow> True)"

text \<open>A message that is one lone surrogate, U+D800, as the JSON string
  \<^verbatim>\<open>"\ud800"\<close> gives it.\<close>

definition lone_surrogate :: string where
  "lone_surrogate = [CHR 0xED, CHR 0xA0, CHR 0x80]"

subsection \<open>Responses and worlds for examples\<close>

text \<open>A response that wraps the inbound events \<open>evs\<close>.\<close>

definition wrap_events :: "json list \<Rightarrow> json" where
  "wrap_events evs = JObj [(''openFloor'', JObj [(''events'', JList evs)])]"

text \<open>An event that publishes the manifests \<open>l\<close>, and the response that wraps it.\<close>

definition publish_event :: "json \<Rightarrow> json" where
  "publish_event l =
     JObj [(''eventType'', JStr ''publishManifests''),
           (''parameters'', JObj [(''servicingManifests'', l)])]"

definition wrap_manifests :: "json list \<Rightarrow> json" where
  "wrap_manifests l = wrap_events [publish_event (JList l)]"

text \<open>An utterance event with the text feature \<open>tf\<close>, and the response that carries
  the message \<open>m\<close> as the one entry of \<^verbatim>\<open>values\<close>.\<close>

definition utterance_event :: "json \<Rightarrow> json" where
  "utterance_event tf =
     JObj [(''eventType'', JStr ''utterance''),
           (''parameters'',
            JObj [(''dialogEvent'', JObj [(''features'', JObj [(''text'', tf)])])])]"

definition wrap_values :: "string \<Rightarrow> json" where
  "wrap_values m = wrap_events [utterance_event (JObj [(''values'', JList [JStr m])])]"

text \<open>A token with or without the \<^verbatim>\<open>value\<close> sub-field.\<close>

definition token_of :: "string option \<Rightarrow> json" where
  "token_of v = (case v of None \<Rightarrow> JObj [] | Some s \<Rightarrow> JObj [(''value'', JStr s)])"

text \<open>A world in which every POST is answered by \<open>outcome\<close>; standard output has the
  strict error handler, so it writes no text with a lone surrogate. The two
  renderings are placeholders (right for a plain string without quotes, and for no
  float): the examples never render.\<close>

definition world_answering :: "http_outcome \<Rightarrow> world" where
  "world_answering outcome =
     \<lparr> new_conversation = Conversation ''conv:6f1c2d3e'',
       http_post = (\<lambda>target_url env. outcome),
       stdout_encodes = (\<lambda>text. False),
       float_str = (\<lambda>w. ''nan''),
       str_repr = (\<lambda>s. [CHR 0x27] @ s @ [CHR 0x27]) \<rparr>"

definition world_replying :: "json \<Rightarrow> world" where
  "world_replying response_data = world_answering (Responded 200 (Some response_data))"

text \<open>A world whose agent answers with the conversation identifier of the envelope
  it was posted, as the one published manifest and as the text of its utterance:
  what the client returns then shows what it posted.\<close>

definition world_echoing :: world where
  "world_echoing =
     \<lparr> new_conversation = Conversation ''conv:6f1c2d3e'',
       http_post = (\<lambda>target_url env.
         Responded 200 (Some (wrap_events
           [publish_event (JList [JStr (conversation_ident (conversation env))]),
            utterance_event
              (JObj [(''values'', JList [JStr (conversation_ident (conversation env))])])]))),
       stdout_encodes = (\<lambda>text. False),
       float_str = (\<lambda>w. ''nan''),
       str_repr = (\<lambda>s. [CHR 0x27] @ s @ [CHR 0x27]) \<rparr>"

text \<open>A session as \<^verbatim>\<open>OpenFloorClient()\<close> makes it, for two draws of the generator.\<close>

definition example_session :: session where
  "example_session = init ''0a1b2c3d'' ''1a2b3c4d'' None None"

section \<open>Basic facts\<close>

lemma bind_Inl [simp]: "bind (Inl e) f = Inl e"
  by (simp add: bind_def)

lemma bind_Inr [simp]: "bind (Inr v) f = f v"
  by (simp add: bind_def)

lemma bind_eq_Inr: "bind r f = Inr y \<longleftrightarrow> (\<exists>v. r = Inr v \<and> f v = Inr y)"
  by (cases r) simp_all

lemma caught_simps [simp]: "caught (Inl e) = None" "caught (Inr v) = v"
  by (simp_all add: caught_def)

lemma py_get_object: "py_get x k d = Inr v \<Longrightarrow> is_object x"
  by (cases x) (simp_all add: is_object_def)

lemma tagged_event_type:
  "is_object ev \<Longrightarrow> \<exists>t. py_get ev ''eventType'' JNull = Inr t \<and> (t = JStr tag \<longleftrightarrow> tagged tag ev)"
  by (cases ev) (auto simp: is_object_def tagged_def split: option.splits)

lemma no_wrapper_manifests: "\<not> has_wrapper r \<Longrightarrow> caught (manifests_of_response r) = None"
  by (cases r) (simp_all add: has_wrapper_def manifests_of_response_def)

lemma no_wrapper_reply: "\<not> has_wrapper r \<Longrightarrow> caught (reply_of_response W r) = None"
  by (cases r) (simp_all add: has_wrapper_def reply_of_response_def)

lemma inbound_manifests:
  "inbound_events r = Some evs \<Longrightarrow>
   manifests_of_response r = bind (find_manifests evs) (\<lambda>m. Inr (Some m))"
  by (auto simp: inbound_events_def manifests_of_response_def
           split: json.splits option.splits)

lemma inbound_reply:
  "inbound_events r = Some evs \<Longrightarrow>
   reply_of_response W r = bind (find_reply W evs) (\<lambda>m. Inr (Some m))"
  by (auto simp: inbound_events_def reply_of_response_def
           split: json.splits option.splits)

lemma skip_manifests_event: "no_manifests_in ev \<Longrightarrow> manifests_of_event ev = Inr None"
  by (cases ev)
     (auto simp: no_manifests_in_def is_object_def tagged_def manifests_of_event_def published_def
                 bind_eq_Inr
           split: option.splits sum.splits if_splits)

lemma hit_manifests_event:
  "tagged ''publishManifests'' ev \<Longrightarrow> published ev = Inr l \<Longrightarrow> truthy l \<Longrightarrow> has_length l \<Longrightarrow>
   manifests_of_event ev = Inr (Some l)"
  by (cases ev)
     (auto simp: tagged_def manifests_of_event_def published_def bind_eq_Inr has_length_def
           split: option.splits sum.splits if_splits)

lemma find_manifests_skip:
  "\<forall>e\<in>set pre. no_manifests_in e \<Longrightarrow> find_manifests (pre @ rest) = find_manifests rest"
  by (induction pre) (simp_all add: skip_manifests_event)

lemma skip_reply_event: "no_reply_in W ev \<Longrightarrow> reply_of_event W ev = Inr None"
  by (cases ev)
     (auto simp: no_reply_in_def is_object_def tagged_def reply_of_event_def uttered_def
                 bind_eq_Inr
           split: option.splits sum.splits if_splits)

lemma py_print_printable [simp]: "printable W text \<Longrightarrow> py_print W text = Inr ()"
  by (simp add: py_print_def)

lemma py_print_unprintable [simp]:
  "\<not> printable W text \<Longrightarrow> py_print W text = Inl UnicodeEncodeError"
  by (simp add: py_print_def)

lemma tagged_get: "tagged t ev \<Longrightarrow> py_get ev ''eventType'' JNull = Inr (JStr t)"
  by (cases ev) (auto simp: tagged_def split: option.splits)

lemma hit_reply_event:
  assumes "tagged ''utterance'' ev" "uttered W ev = Inr t" "truthy t"
    "printable W (reply_line W t)"
  shows "reply_of_event W ev = Inr (Some t)"
proof -
  from assms(2) obtain tf where "text_feature_of ev = Inr tf" "extract_text W tf = Inr t"
    by (auto simp: uttered_def bind_eq_Inr)
  with assms show ?thesis by (simp add: reply_of_event_def tagged_get)
qed

lemma unprintable_reply_event:
  assumes "tagged ''utterance'' ev" "uttered W ev = Inr t" "truthy t"
    "\<not> printable W (reply_line W t)"
  shows "reply_of_event W ev = Inl UnicodeEncodeError"
proof -
  from assms(2) obtain tf where "text_feature_of ev = Inr tf" "extract_text W tf = Inr t"
    by (auto simp: uttered_def bind_eq_Inr)
  with assms show ?thesis by (simp add: reply_of_event_def tagged_get)
qed

lemma reply_line_surrogate:
  "has_surrogate (reply_line W (JStr s)) = has_surrogate s"
  by (cases s) (simp_all add: reply_line_def py_str_def)

lemma printable_reply [simp]:
  "\<not> has_surrogate s \<Longrightarrow> printable W (reply_line W (JStr s))"
  by (simp add: printable_def reply_line_surrogate)

lemma find_reply_skip:
  "\<forall>e\<in>set pre. no_reply_in W e \<Longrightarrow> find_reply W (pre @ rest) = find_reply W rest"
  by (induction pre) (simp_all add: skip_reply_event)

lemma snd_get_manifest:
  "snd (get_manifest W self url) =
   caught (bind (send_envelope W (manifest_request W self url) url) manifests_of_response)"
  by (simp add: get_manifest_def)

lemma snd_send_message:
  "snd (send_message W self url m) =
   caught (bind (send_envelope W (utterance_request W self url m) url) (reply_of_response W))"
  by (simp add: send_message_def)

lemma untagged_no_manifests:
  "is_object e \<and> \<not> tagged ''publishManifests'' e \<Longrightarrow> no_manifests_in e"
  by (simp add: no_manifests_in_def)

lemma untagged_no_reply:
  "is_object e \<and> \<not> tagged ''utterance'' e \<Longrightarrow> no_reply_in W e"
  by (simp add: no_reply_in_def)

lemma find_manifests_none:
  "\<forall>e\<in>set evs. no_manifests_in e \<Longrightarrow> find_manifests evs = Inr (JList [])"
  using find_manifests_skip [of evs "[]"] by simp

lemma find_reply_none:
  "\<forall>e\<in>set evs. no_reply_in W e \<Longrightarrow> find_reply W evs = Inr (JStr no_response)"
  using find_reply_skip [of evs W "[]"] by simp

lemma sending_line_surrogate: "has_surrogate (sending_line url) = has_surrogate url"
  by (cases url) (simp_all add: sending_line_def)

lemma printable_sending [simp]: "\<not> has_surrogate url \<Longrightarrow> printable W (sending_line url)"
  by (simp add: printable_def sending_line_surrogate)

lemma send_envelope_replying [simp]:
  "\<not> has_surrogate url \<Longrightarrow> send_envelope (world_replying r) env url = Inr r"
  by (simp add: send_envelope_def world_replying_def world_answering_def raises_for_status_def)

lemma publish_event_facts:
  "tagged ''publishManifests'' (publish_event l)" "published (publish_event l) = Inr l"
  "is_object (publish_event l)"
  by (simp_all add: publish_event_def tagged_def published_def is_object_def)

lemma inbound_wrap_events [simp]: "inbound_events (wrap_events evs) = Some evs"
  by (simp add: inbound_events_def wrap_events_def)

lemma find_manifests_hit:
  assumes "\<forall>e\<in>set pre. no_manifests_in e" "tagged ''publishManifests'' ev"
    "published ev = Inr l" "truthy l" "has_length l"
  shows "find_manifests (pre @ ev # post) = Inr l"
  using assms by (simp add: find_manifests_skip hit_manifests_event)

lemma find_reply_hit:
  assumes "\<forall>e\<in>set pre. no_reply_in W e" "tagged ''utterance'' ev"
    "uttered W ev = Inr t" "truthy t" "printable W (reply_line W t)"
  shows "find_reply W (pre @ ev # post) = Inr t"
  using assms by (simp add: find_reply_skip hit_reply_event)

lemma find_reply_unprintable:
  assumes "\<forall>e\<in>set pre. no_reply_in W e" "tagged ''utterance'' ev"
    "uttered W ev = Inr t" "truthy t" "\<not> printable W (reply_line W t)"
  shows "find_reply W (pre @ ev # post) = Inl UnicodeEncodeError"
  using assms by (simp add: find_reply_skip unprintable_reply_event)

lemma utterance_event_facts:
  "tagged ''utterance'' (utterance_event tf)" "text_feature_of (utterance_event tf) = Inr tf"
  "is_object (utterance_event tf)"
  by (simp_all add: utterance_event_def tagged_def text_feature_of_def is_object_def)

lemma has_truthy_object:
  "has_truthy k (JObj tf) = Inr (case map_of tf k of None \<Rightarrow> False | Some v \<Rightarrow> truthy v)"
  by (simp add: has_truthy_def split: option.splits)

lemma extract_values:
  "map_of tf ''values'' = Some v \<Longrightarrow> truthy v \<Longrightarrow> extract_text W (JObj tf) = py_first v"
  by (simp add: extract_text_def has_truthy_object)

lemma find_manifests_wrap: "find_manifests [publish_event (JList l)] = Inr (JList l)"
proof (cases l)
  case Nil
  have "no_manifests_in (publish_event (JList []))"
    by (simp add: no_manifests_in_def publish_event_facts)
  then show ?thesis using Nil find_manifests_none [of "[publish_event (JList [])]"] by simp
next
  case (Cons x xs)
  then show ?thesis
    using find_manifests_hit [of "[]" "publish_event (JList l)" "JList l" "[]"]
    by (simp add: publish_event_facts has_length_def)
qed

lemma uttered_values:
  "uttered W (utterance_event (JObj [(''values'', JList [JStr msg])])) = Inr (JStr msg)"
  by (simp add: uttered_def utterance_event_facts extract_values)

lemma find_reply_wrap:
  assumes "msg \<noteq> []" "printable W (reply_line W (JStr msg))"
  shows "find_reply W [utterance_event (JObj [(''values'', JList [JStr msg])])] = Inr (JStr msg)"
  using assms
    find_reply_hit [of "[]" W "utterance_event (JObj [(''values'', JList [JStr msg])])"
                       "JStr msg" "[]"]
  by (simp add: utterance_event_facts uttered_values del: find_reply.simps)

lemma send_envelope_answering:
  "\<not> (400 \<le> status \<and> status < 600) \<Longrightarrow> \<not> has_surrogate url \<Longrightarrow>
   send_envelope (world_answering (Responded status (Some r))) env url = Inr r"
  by (simp add: send_envelope_def world_answering_def raises_for_status_def)

section \<open>Properties of the client\<close>

subsection \<open>The session is not changed\<close>

text \<open>
  C9. A call to \<^verbatim>\<open>get_manifest\<close> or \<^verbatim>\<open>send_message\<close>, whether it returns a result or
  \<^verbatim>\<open>None\<close>, leaves the identity fields of the session as they were: the speaker URI,
  the conversation identifier and the service URL after the call are those before
  it.
\<close>

theorem identity_fields_unchanged:
  "speaker_uri (fst (get_manifest W self agent_url)) = speaker_uri self
   \<and> conversation_id (fst (get_manifest W self agent_url)) = conversation_id self
   \<and> service_url (fst (get_manifest W self agent_url)) = service_url self
   \<and> speaker_uri (fst (send_message W self agent_url message)) = speaker_uri self
   \<and> conversation_id (fst (send_message W self agent_url message)) = conversation_id self
   \<and> service_url (fst (send_message W self agent_url message)) = service_url self"
  by (simp add: get_manifest_def send_message_def)

subsection \<open>A response without the wrapper key\<close>

text \<open>
  C7. When the response data lacks the top-level wrapper key, both \<^verbatim>\<open>get_manifest\<close> and
  \<^verbatim>\<open>send_message\<close> return \<^verbatim>\<open>None\<close>. That differs from what they return when the wrapper
  is there and no inbound event matches: the empty manifest list and the string
  \<^verbatim>\<open>"Agent sent no response"\<close>, neither of which is \<^verbatim>\<open>None\<close>.
\<close>

theorem missing_wrapper_gives_None:
  "(\<not> has_wrapper r \<and> send_envelope W (manifest_request W self url) url = Inr r
      \<longrightarrow> snd (get_manifest W self url) = None)
   \<and> (\<not> has_wrapper r \<and> send_envelope W (utterance_request W self url m) url = Inr r
      \<longrightarrow> snd (send_message W self url m) = None)
   \<and> (inbound_events r = Some evs
        \<and> (\<forall>e\<in>set evs. is_object e \<and> \<not> tagged ''publishManifests'' e)
        \<and> send_envelope W (manifest_request W self url) url = Inr r
      \<longrightarrow> snd (get_manifest W self url) = Some (JList [])
          \<and> snd (get_manifest W self url) \<noteq> None)
   \<and> (inbound_events r = Some evs
        \<and> (\<forall>e\<in>set evs. is_object e \<and> \<not> tagged ''utterance'' e)
        \<and> send_envelope W (utterance_request W self url m) url = Inr r
      \<longrightarrow> snd (send_message W self url m) = Some (JStr no_response)
          \<and> snd (send_message W self url m) \<noteq> None)"
proof (intro conjI impI)
  assume "\<not> has_wrapper r \<and> send_envelope W (manifest_request W self url) url = Inr r"
  then show "snd (get_manifest W self url) = None"
    by (simp add: snd_get_manifest no_wrapper_manifests)
next
  assume "\<not> has_wrapper r \<and> send_envelope W (utterance_request W self url m) url = Inr r"
  then show "snd (send_message W self url m) = None"
    by (simp add: snd_send_message no_wrapper_reply)
next
  assume a: "inbound_events r = Some evs
        \<and> (\<forall>e\<in>set evs. is_object e \<and> \<not> tagged ''publishManifests'' e)
        \<and> send_envelope W (manifest_request W self url) url = Inr r"
  then have "find_manifests evs = Inr (JList [])"
    by (intro find_manifests_none ballI untagged_no_manifests) simp
  with a show g: "snd (get_manifest W self url) = Some (JList [])"
    by (simp add: snd_get_manifest inbound_manifests)
  then show "snd (get_manifest W self url) \<noteq> None" by simp
next
  assume a: "inbound_events r = Some evs
        \<and> (\<forall>e\<in>set evs. is_object e \<and> \<not> tagged ''utterance'' e)
        \<and> send_envelope W (utterance_request W self url m) url = Inr r"
  then have "find_reply W evs = Inr (JStr no_response)"
    by (intro find_reply_none ballI untagged_no_reply) simp
  with a show g: "snd (send_message W self url m) = Some (JStr no_response)"
    by (simp add: snd_send_message inbound_reply)
  then show "snd (send_message W self url m) \<noteq> None" by simp
qed

theorem missing_wrapper_gives_None_witness:
  "\<not> has_wrapper (JObj [(''events'', JList [])])
   \<and> snd (get_manifest (world_replying (JObj [(''events'', JList [])])) example_session ''http://agent/'') = None
   \<and> snd (send_message (world_replying (JObj [(''events'', JList [])])) example_session ''http://agent/'' ''hi'') = None
   \<and> inbound_events (wrap_events [JObj [(''eventType'', JStr ''bye'')]]) = Some [JObj [(''eventType'', JStr ''bye'')]]
   \<and> snd (get_manifest (world_replying (wrap_events [JObj [(''eventType'', JStr ''bye'')]])) example_session ''http://agent/'') = Some (JList [])
   \<and> snd (send_message (world_replying (wrap_events [JObj [(''eventType'', JStr ''bye'')]])) example_session ''http://agent/'' ''hi'') = Some (JStr no_response)"
  using missing_wrapper_gives_None [of "JObj [(''events'', JList [])]"
          "world_replying (JObj [(''events'', JList [])])" example_session "''http://agent/''" "''hi''" "[]"]
        missing_wrapper_gives_None [of "wrap_events [JObj [(''eventType'', JStr ''bye'')]]"
          "world_replying (wrap_events [JObj [(''eventType'', JStr ''bye'')]])" example_session "''http://agent/''" "''hi''"
          "[JObj [(''eventType'', JStr ''bye'')]]"]
  by (simp add: has_wrapper_def inbound_events_def wrap_events_def is_object_def tagged_def)

subsection \<open>A failed exchange\<close>

text \<open>
  C8 as it is worded: the HTTP exchange fails for every status outside 200 to 299,
  and the operation then returns \<^verbatim>\<open>None\<close>. It does not: the only check of the status
  is \<^verbatim>\<open>raise_for_status\<close>, which lets the status 300 pass, and the response is read
  like any other.
\<close>

theorem non_2xx_counterexample:
  "non_2xx 300
   \<and> snd (get_manifest (world_answering (Responded 300 (Some (wrap_manifests [JObj []]))))
            example_session ''http://agent/'') = Some (JList [JObj []])
   \<and> snd (send_message (world_answering (Responded 300 (Some (wrap_values ''hello''))))
            example_session ''http://agent/'' ''hi'') = Some (JStr ''hello'')"
proof -
  have "non_2xx 300" by (simp add: non_2xx_def)
  moreover have "snd (get_manifest (world_answering (Responded 300 (Some (wrap_manifests [JObj []]))))
            example_session ''http://agent/'') = Some (JList [JObj []])"
    by (simp add: snd_get_manifest send_envelope_answering wrap_manifests_def
                  inbound_manifests [of _ "[publish_event (JList [JObj []])]"]
                  find_manifests_wrap
             del: find_manifests.simps)
  moreover have "snd (send_message (world_answering (Responded 300 (Some (wrap_values ''hello''))))
            example_session ''http://agent/'' ''hi'') = Some (JStr ''hello'')"
    by (simp add: snd_send_message send_envelope_answering wrap_values_def
                  inbound_reply [of _ "[utterance_event (JObj [(''values'', JList [JStr ''hello''])])]"]
                  find_reply_wrap
             del: find_reply.simps)
  ultimately show ?thesis by blast
qed

text \<open>
  C8, amended. When the HTTP exchange fails in transport, that is when the request
  raises (network failure, timeout) or the status is from 400 to 599,
  \<^verbatim>\<open>get_manifest\<close> and \<^verbatim>\<open>send_message\<close> return \<^verbatim>\<open>None\<close>, and \<^verbatim>\<open>_send_envelope\<close> has raised
  its \<^verbatim>\<open>Exception\<close> inside the operation (where the line with the target URL could be
  printed, so that the POST was made). A response with any other status and a JSON
  body is handed on and read, whether the status is in 200 to 299 or not. Whatever exception is raised in
  the exchange or while the response is read, the operation returns \<^verbatim>\<open>None\<close>: none
  reaches the caller.
\<close>

theorem failed_exchange_gives_None:
  "(transport_fails (http_post W url (manifest_request W self url))
      \<longrightarrow> snd (get_manifest W self url) = None)
   \<and> (transport_fails (http_post W url (utterance_request W self url m))
      \<longrightarrow> snd (send_message W self url m) = None)
   \<and> (transport_fails (http_post W url env) \<and> printable W (sending_line url)
      \<longrightarrow> send_envelope W env url = Inl ExchangeError)
   \<and> (http_post W url env = Responded status (Some r) \<and> \<not> (400 \<le> status \<and> status < 600)
        \<and> printable W (sending_line url)
      \<longrightarrow> send_envelope W env url = Inr r)
   \<and> (bind (send_envelope W (manifest_request W self url) url) manifests_of_response = Inl e
      \<longrightarrow> snd (get_manifest W self url) = None)
   \<and> (bind (send_envelope W (utterance_request W self url m) url) (reply_of_response W) = Inl e
      \<longrightarrow> snd (send_message W self url m) = None)"
proof -
  have raised: "send_envelope W env' url = Inl ExchangeError"
    if "transport_fails (http_post W url env')" "printable W (sending_line url)" for env'
    using that
    by (auto simp: transport_fails_def send_envelope_def raises_for_status_def
             split: http_outcome.splits)
  have failed: "\<exists>e'. send_envelope W env' url = Inl e'"
    if "transport_fails (http_post W url env')" for env'
    using that raised [of env']
    by (cases "printable W (sending_line url)") (simp_all add: send_envelope_def)
  have passed: "send_envelope W env url = Inr r"
    if "http_post W url env = Responded status (Some r)" "\<not> (400 \<le> status \<and> status < 600)"
      "printable W (sending_line url)"
    using that by (simp add: send_envelope_def raises_for_status_def)
  have g: "snd (get_manifest W self url) = None"
    if "transport_fails (http_post W url (manifest_request W self url))"
    using failed [OF that] by (auto simp: snd_get_manifest)
  have c: "snd (send_message W self url m) = None"
    if "transport_fails (http_post W url (utterance_request W self url m))"
    using failed [OF that] by (auto simp: snd_send_message)
  have ge: "snd (get_manifest W self url) = None"
    if "bind (send_envelope W (manifest_request W self url) url) manifests_of_response = Inl e"
    using that by (simp add: snd_get_manifest)
  have ce: "snd (send_message W self url m) = None"
    if "bind (send_envelope W (utterance_request W self url m) url) (reply_of_response W) = Inl e"
    using that by (simp add: snd_send_message)
  from g c raised [of env] passed ge ce show ?thesis by blast
qed

theorem failed_exchange_gives_None_witness:
  "transport_fails (Responded 503 (Some (wrap_manifests [])))
   \<and> snd (get_manifest (world_answering (Responded 503 (Some (wrap_manifests []))))
            example_session ''http://agent/'') = None
   \<and> snd (send_message (world_answering (Responded 503 (Some (wrap_manifests []))))
            example_session ''http://agent/'' ''hi'') = None
   \<and> transport_fails RequestFailed
   \<and> snd (get_manifest (world_answering RequestFailed) example_session ''http://agent/'') = None
   \<and> snd (send_message (world_answering RequestFailed) example_session ''http://agent/'' ''hi'')
       = None
   \<and> send_envelope (world_answering RequestFailed)
        (manifest_request (world_answering RequestFailed) example_session ''http://agent/'')
        ''http://agent/'' = Inl ExchangeError
   \<and> send_envelope (world_answering (Responded 300 (Some (wrap_manifests []))))
        (manifest_request (world_answering (Responded 300 (Some (wrap_manifests []))))
           example_session ''http://agent/'')
        ''http://agent/'' = Inr (wrap_manifests [])"
proof -
  let ?W = "world_answering (Responded 503 (Some (wrap_manifests [])))"
  let ?V = "world_answering RequestFailed"
  let ?U = "world_answering (Responded 300 (Some (wrap_manifests [])))"
  have f1: "transport_fails (Responded 503 (Some (wrap_manifests [])))"
    and f2: "transport_fails RequestFailed"
    by (simp_all add: transport_fails_def)
  have 1: "snd (get_manifest ?W example_session ''http://agent/'') = None
     \<and> snd (send_message ?W example_session ''http://agent/'' ''hi'') = None"
    using failed_exchange_gives_None [of ?W "''http://agent/''" example_session "''hi''"] f1
    by (simp add: world_answering_def)
  have 2: "snd (get_manifest ?V example_session ''http://agent/'') = None
     \<and> snd (send_message ?V example_session ''http://agent/'' ''hi'') = None"
    using failed_exchange_gives_None [of ?V "''http://agent/''" example_session "''hi''"] f2
    by (simp add: world_answering_def)
  have 3: "send_envelope ?V (manifest_request ?V example_session ''http://agent/'')
        ''http://agent/'' = Inl ExchangeError"
    using failed_exchange_gives_None [of ?V "''http://agent/''" example_session "''hi''"
            "manifest_request ?V example_session ''http://agent/''",
            THEN conjunct2, THEN conjunct2, THEN conjunct1] f2
    by (simp add: world_answering_def)
  have 4: "send_envelope ?U (manifest_request ?U example_session ''http://agent/'')
        ''http://agent/'' = Inr (wrap_manifests [])"
    using failed_exchange_gives_None [of ?U "''http://agent/''" example_session "''hi''"
            "manifest_request ?U example_session ''http://agent/''" 300 "wrap_manifests []",
            THEN conjunct2, THEN conjunct2, THEN conjunct2, THEN conjunct1]
    by (simp add: world_answering_def)
  from f1 f2 1 2 3 4 show ?thesis by blast
qed

subsection \<open>Which manifest list is returned\<close>

text \<open>
  C3 as it is worded: on a response with the wrapper key, \<^verbatim>\<open>get_manifest\<close> returns the
  manifest list of the first event tagged \<^verbatim>\<open>publishManifests\<close>, which may be empty.
  It does not: when the first such event publishes the empty list and a later one a
  list with one manifest, the later list is returned.
\<close>

theorem first_published_counterexample:
  "spec_first_published [publish_event (JList []), publish_event (JList [JObj []])] = Inr (JList [])
   \<and> snd (get_manifest
            (world_replying (wrap_events [publish_event (JList []), publish_event (JList [JObj []])]))
            example_session ''http://agent/'') = Some (JList [JObj []])"
  by (simp add: spec_first_published_def snd_get_manifest inbound_manifests tagged_def
                published_def manifests_of_event_def publish_event_def)

text \<open>
  C3, amended. On a response whose wrapper holds a list of event objects,
  \<^verbatim>\<open>get_manifest\<close> returns the manifest list of the first event tagged
  \<^verbatim>\<open>publishManifests\<close> whose list is not empty (a true value that has a length, as a
  list has), the events before it being objects that are not so tagged or that
  publish an empty list; it returns the empty list when every event is of that kind. So for every manifest list \<open>L\<close>, the empty one too, the
  response that wraps \<open>L\<close> gives back \<open>L\<close>.
\<close>

theorem first_nonempty_published:
  "(inbound_events r = Some (pre @ ev # post)
      \<and> (\<forall>e\<in>set pre. no_manifests_in e)
      \<and> tagged ''publishManifests'' ev \<and> published ev = Inr l \<and> truthy l \<and> has_length l
      \<and> send_envelope W (manifest_request W self url) url = Inr r
     \<longrightarrow> snd (get_manifest W self url) = Some l)
   \<and> (inbound_events r = Some evs
      \<and> (\<forall>e\<in>set evs. no_manifests_in e)
      \<and> send_envelope W (manifest_request W self url) url = Inr r
     \<longrightarrow> snd (get_manifest W self url) = Some (JList []))
   \<and> (send_envelope W (manifest_request W self url) url = Inr (wrap_manifests L)
     \<longrightarrow> snd (get_manifest W self url) = Some (JList L))"
proof (intro conjI impI)
  assume a: "inbound_events r = Some (pre @ ev # post)
      \<and> (\<forall>e\<in>set pre. no_manifests_in e)
      \<and> tagged ''publishManifests'' ev \<and> published ev = Inr l \<and> truthy l \<and> has_length l
      \<and> send_envelope W (manifest_request W self url) url = Inr r"
  then have "find_manifests (pre @ ev # post) = Inr l"
    by (intro find_manifests_hit) simp_all
  with a show "snd (get_manifest W self url) = Some l"
    by (simp add: snd_get_manifest inbound_manifests)
next
  assume a: "inbound_events r = Some evs
      \<and> (\<forall>e\<in>set evs. no_manifests_in e)
      \<and> send_envelope W (manifest_request W self url) url = Inr r"
  then have "find_manifests evs = Inr (JList [])"
    by (intro find_manifests_none) simp
  with a show "snd (get_manifest W self url) = Some (JList [])"
    by (simp add: snd_get_manifest inbound_manifests)
next
  assume "send_envelope W (manifest_request W self url) url = Inr (wrap_manifests L)"
  then show "snd (get_manifest W self url) = Some (JList L)"
    by (simp add: snd_get_manifest wrap_manifests_def
                  inbound_manifests [of _ "[publish_event (JList L)]"] find_manifests_wrap
             del: find_manifests.simps)
qed

theorem first_nonempty_published_witness:
  "no_manifests_in (publish_event (JList []))
   \<and> truthy (JList [JObj []]) \<and> has_length (JList [JObj []])
   \<and> snd (get_manifest
            (world_replying (wrap_events [publish_event (JList []), publish_event (JList [JObj []])]))
            example_session ''http://agent/'') = Some (JList [JObj []])
   \<and> snd (get_manifest (world_replying (wrap_events [publish_event (JList [])]))
            example_session ''http://agent/'') = Some (JList [])
   \<and> snd (get_manifest (world_replying (wrap_manifests [JObj [], JObj []]))
            example_session ''http://agent/'') = Some (JList [JObj [], JObj []])"
  using first_nonempty_published [of
          "wrap_events [publish_event (JList []), publish_event (JList [JObj []])]"
          "[publish_event (JList [])]" "publish_event (JList [JObj []])" "[]" "JList [JObj []]"
          "world_replying (wrap_events [publish_event (JList []), publish_event (JList [JObj []])])"
          example_session "''http://agent/''" "[]" "[]"]
        first_nonempty_published [of
          "wrap_events [publish_event (JList [])]"
          "[]" "publish_event (JList [JObj []])" "[]" "JList [JObj []]"
          "world_replying (wrap_events [publish_event (JList [])])"
          example_session "''http://agent/''" "[publish_event (JList [])]" "[]"]
        first_nonempty_published [of
          "wrap_manifests [JObj [], JObj []]"
          "[]" "publish_event (JList [JObj []])" "[]" "JList [JObj []]"
          "world_replying (wrap_manifests [JObj [], JObj []])"
          example_session "''http://agent/''" "[]" "[JObj [], JObj []]"]
  by (simp add: no_manifests_in_def publish_event_facts has_length_def)

subsection \<open>Which reply is returned\<close>

text \<open>
  C2 as it is worded: on a response with the wrapper key, \<^verbatim>\<open>send_message\<close> returns
  \<^verbatim>\<open>"Agent sent no response"\<close> exactly when no inbound event is tagged \<^verbatim>\<open>utterance\<close>, and
  otherwise the text of the first event so tagged. It does not: an utterance event
  without text gives the sentinel string, and when a later utterance event has a
  text, that later text is returned.
\<close>

theorem first_utterance_counterexample:
  "list_ex (tagged ''utterance'') [utterance_event (JObj [])]
   \<and> snd (send_message (world_replying (wrap_events [utterance_event (JObj [])]))
            example_session ''http://agent/'' ''hi'') = Some (JStr no_response)
   \<and> find (tagged ''utterance'')
        [utterance_event (JObj []), utterance_event (JObj [(''values'', JList [JStr ''later''])])]
      = Some (utterance_event (JObj []))
   \<and> snd (send_message
            (world_replying (wrap_events
               [utterance_event (JObj []),
                utterance_event (JObj [(''values'', JList [JStr ''later''])])]))
            example_session ''http://agent/'' ''hi'') = Some (JStr ''later'')"
  by (simp add: snd_send_message inbound_reply utterance_event_facts reply_of_event_def
                extract_text_def has_truthy_object py_str_def utterance_event_def
                text_feature_of_def tagged_def)

text \<open>
  C2, amended. On a response whose wrapper holds a list of event objects,
  \<^verbatim>\<open>send_message\<close> returns the text of the first event tagged \<^verbatim>\<open>utterance\<close> whose
  extracted text is not empty, the events before it being objects that are not so
  tagged or whose text is empty, when standard output can write the line that
  reports the text; it returns \<^verbatim>\<open>"Agent sent no response"\<close> when every event is of that
  kind. When no utterance event has that very string as its text, the
  sentinel is returned exactly when no utterance event has a text that is not empty.
\<close>

theorem first_nonempty_utterance:
  "(inbound_events r = Some (pre @ ev # post)
      \<and> (\<forall>e\<in>set pre. no_reply_in W e)
      \<and> tagged ''utterance'' ev \<and> uttered W ev = Inr t \<and> truthy t
      \<and> printable W (reply_line W t)
      \<and> send_envelope W (utterance_request W self url m) url = Inr r
     \<longrightarrow> snd (send_message W self url m) = Some t)
   \<and> (inbound_events r = Some evs
      \<and> (\<forall>e\<in>set evs. no_reply_in W e)
      \<and> send_envelope W (utterance_request W self url m) url = Inr r
     \<longrightarrow> snd (send_message W self url m) = Some (JStr no_response))
   \<and> (inbound_events r = Some evs
      \<and> (\<forall>e\<in>set evs. is_object e \<and>
            (tagged ''utterance'' e \<longrightarrow>
               (\<exists>t. uttered W e = Inr t \<and> t \<noteq> JStr no_response)))
      \<and> send_envelope W (utterance_request W self url m) url = Inr r
     \<longrightarrow> (snd (send_message W self url m) = Some (JStr no_response)
           \<longleftrightarrow> (\<forall>e\<in>set evs. no_reply_in W e)))"
proof (intro conjI impI)
  assume a: "inbound_events r = Some (pre @ ev # post)
      \<and> (\<forall>e\<in>set pre. no_reply_in W e)
      \<and> tagged ''utterance'' ev \<and> uttered W ev = Inr t \<and> truthy t
      \<and> printable W (reply_line W t)
      \<and> send_envelope W (utterance_request W self url m) url = Inr r"
  then have "find_reply W (pre @ ev # post) = Inr t"
    by (intro find_reply_hit) simp_all
  with a show "snd (send_message W self url m) = Some t"
    by (simp add: snd_send_message inbound_reply)
next
  assume a: "inbound_events r = Some evs
      \<and> (\<forall>e\<in>set evs. no_reply_in W e)
      \<and> send_envelope W (utterance_request W self url m) url = Inr r"
  then have "find_reply W evs = Inr (JStr no_response)"
    by (intro find_reply_none) simp
  with a show "snd (send_message W self url m) = Some (JStr no_response)"
    by (simp add: snd_send_message inbound_reply)
next
  assume a: "inbound_events r = Some evs
      \<and> (\<forall>e\<in>set evs. is_object e \<and>
            (tagged ''utterance'' e \<longrightarrow>
               (\<exists>t. uttered W e = Inr t \<and> t \<noteq> JStr no_response)))
      \<and> send_envelope W (utterance_request W self url m) url = Inr r"
  then have res: "snd (send_message W self url m) = caught (bind (find_reply W evs) (\<lambda>m. Inr (Some m)))"
    by (simp add: snd_send_message inbound_reply)
  show "snd (send_message W self url m) = Some (JStr no_response)
           \<longleftrightarrow> (\<forall>e\<in>set evs. no_reply_in W e)"
  proof
    assume "\<forall>e\<in>set evs. no_reply_in W e"
    then show "snd (send_message W self url m) = Some (JStr no_response)"
      by (simp add: res find_reply_none)
  next
    assume s: "snd (send_message W self url m) = Some (JStr no_response)"
    show "\<forall>e\<in>set evs. no_reply_in W e"
    proof (rule ccontr)
      assume "\<not> (\<forall>e\<in>set evs. no_reply_in W e)"
      then have "\<exists>e\<in>set evs. \<not> no_reply_in W e" by simp
      then obtain pre e post where
        sp: "evs = pre @ e # post" "\<not> no_reply_in W e" "\<forall>y\<in>set pre. \<not> \<not> no_reply_in W y"
        using split_list_first_prop [of evs "\<lambda>e. \<not> no_reply_in W e"] by blast
      from a sp(1) have wf: "is_object e"
        "tagged ''utterance'' e \<longrightarrow> (\<exists>t. uttered W e = Inr t \<and> t \<noteq> JStr no_response)"
        by simp_all
      with sp(2) have tg: "tagged ''utterance'' e"
        by (auto simp: no_reply_in_def split: if_splits)
      with wf obtain t where t: "uttered W e = Inr t" "t \<noteq> JStr no_response" by blast
      with sp(2) wf(1) tg have tr: "truthy t"
        by (simp add: no_reply_in_def)
      show False
      proof (cases "printable W (reply_line W t)")
        case True
        with sp tg t tr have "find_reply W evs = Inr t"
          by (simp add: find_reply_hit)
        with res s t(2) show False by simp
      next
        case False
        with sp tg t tr have "find_reply W evs = Inl UnicodeEncodeError"
          by (simp add: find_reply_unprintable)
        with res s show False by simp
      qed
    qed
  qed
qed

theorem first_nonempty_utterance_witness:
  "no_reply_in (world_replying (wrap_events
               [utterance_event (JObj []),
                utterance_event (JObj [(''values'', JList [JStr ''later''])])])) (utterance_event (JObj []))
   \<and> snd (send_message
            (world_replying (wrap_events
               [utterance_event (JObj []),
                utterance_event (JObj [(''values'', JList [JStr ''later''])])]))
            example_session ''http://agent/'' ''hi'') = Some (JStr ''later'')
   \<and> snd (send_message (world_replying (wrap_events [utterance_event (JObj [])]))
            example_session ''http://agent/'' ''hi'') = Some (JStr no_response)
   \<and> (snd (send_message (world_replying (wrap_events [utterance_event (JObj [])]))
            example_session ''http://agent/'' ''hi'') = Some (JStr no_response)
       \<longleftrightarrow> no_reply_in (world_replying (wrap_events [utterance_event (JObj [])]))
             (utterance_event (JObj [])))"
  using first_nonempty_utterance [of
          "wrap_events [utterance_event (JObj []),
                utterance_event (JObj [(''values'', JList [JStr ''later''])])]"
          "[utterance_event (JObj [])]"
          "utterance_event (JObj [(''values'', JList [JStr ''later''])])" "[]"
          "world_replying (wrap_events [utterance_event (JObj []),
                utterance_event (JObj [(''values'', JList [JStr ''later''])])])"
          "JStr ''later''" example_session "''http://agent/''" "''hi''" "[]"]
        first_nonempty_utterance [of
          "wrap_events [utterance_event (JObj [])]"
          "[]" "utterance_event (JObj [])" "[]"
          "world_replying (wrap_events [utterance_event (JObj [])])"
          "JStr ''later''" example_session "''http://agent/''" "''hi''" "[utterance_event (JObj [])]"]
  by (simp add: no_reply_in_def utterance_event_facts uttered_def extract_text_def
                has_truthy_object py_str_def no_response_def)

subsection \<open>Round trip of the values encoding\<close>

text \<open>
  C5 as it is worded: for every message \<open>m\<close> that is not empty, \<^verbatim>\<open>send_message\<close> on a
  response whose \<^verbatim>\<open>values\<close> list starts with \<open>m\<close> returns exactly \<open>m\<close>. It does not
  for a message that standard output cannot write: the client prints the reply
  inside its \<^verbatim>\<open>try\<close> before it returns it, so for the lone surrogate that the JSON
  string \<^verbatim>\<open>"\ud800"\<close> carries, and a standard output with the strict error handler,
  the result is \<^verbatim>\<open>None\<close>.
\<close>

theorem values_round_trip_counterexample:
  "lone_surrogate \<noteq> []
   \<and> snd (send_message (world_replying (wrap_values lone_surrogate)) example_session
            ''http://agent/'' ''hi'') = None"
proof -
  let ?W = "world_replying (wrap_values lone_surrogate)"
  let ?ev = "utterance_event (JObj [(''values'', JList [JStr lone_surrogate])])"
  have "\<not> printable ?W (reply_line ?W (JStr lone_surrogate))"
    by (simp add: printable_def reply_line_surrogate lone_surrogate_def world_replying_def
                  world_answering_def)
  then have "find_reply ?W ([] @ ?ev # []) = Inl UnicodeEncodeError"
    by (intro find_reply_unprintable)
       (simp_all add: utterance_event_facts uttered_values lone_surrogate_def)
  then have "snd (send_message ?W example_session ''http://agent/'' ''hi'') = None"
    by (simp add: snd_send_message wrap_values_def inbound_reply [of _ "[?ev]"]
             del: find_reply.simps)
  then show ?thesis by (simp add: lone_surrogate_def)
qed

text \<open>
  C5, amended. For every message \<open>msg\<close> that is not empty and that standard output
  can write in the line that reports the reply (it holds no lone surrogate, or
  standard output lets one through): when the first inbound event tagged
  \<^verbatim>\<open>utterance\<close> carries a text feature whose \<^verbatim>\<open>values\<close> list starts with \<open>msg\<close>,
  \<^verbatim>\<open>send_message\<close> returns exactly \<open>msg\<close>; so it does on the response that wraps \<open>msg\<close> as
  the one entry of \<^verbatim>\<open>values\<close>.
\<close>

theorem values_round_trip:
  "(inbound_events r = Some (pre @ ev # post)
      \<and> (\<forall>e\<in>set pre. is_object e \<and> \<not> tagged ''utterance'' e)
      \<and> tagged ''utterance'' ev
      \<and> text_feature_of ev = Inr (JObj tf)
      \<and> map_of tf ''values'' = Some (JList (JStr msg # vs))
      \<and> msg \<noteq> []
      \<and> printable W (reply_line W (JStr msg))
      \<and> send_envelope W (utterance_request W self url m) url = Inr r
     \<longrightarrow> snd (send_message W self url m) = Some (JStr msg))
   \<and> (msg \<noteq> []
      \<and> printable W (reply_line W (JStr msg))
      \<and> send_envelope W (utterance_request W self url m) url = Inr (wrap_values msg)
     \<longrightarrow> snd (send_message W self url m) = Some (JStr msg))
   \<and> (msg \<noteq> [] \<and> \<not> has_surrogate msg
      \<and> send_envelope W (utterance_request W self url m) url = Inr (wrap_values msg)
     \<longrightarrow> snd (send_message W self url m) = Some (JStr msg))"
proof -
  have main: "snd (send_message W self url m) = Some (JStr msg)"
    if a: "inbound_events r = Some (pre @ ev # post)"
      "\<forall>e\<in>set pre. is_object e \<and> \<not> tagged ''utterance'' e"
      "tagged ''utterance'' ev" "text_feature_of ev = Inr (JObj tf)"
      "map_of tf ''values'' = Some (JList (JStr msg # vs))" "msg \<noteq> []"
      "printable W (reply_line W (JStr msg))"
      "send_envelope W (utterance_request W self url m) url = Inr r"
    for r pre ev post tf vs
  proof -
    from a(4,5) have "uttered W ev = Inr (JStr msg)"
      by (simp add: uttered_def extract_values)
    moreover from a(2) have "\<forall>e\<in>set pre. no_reply_in W e"
      by (simp add: untagged_no_reply)
    ultimately have "find_reply W (pre @ ev # post) = Inr (JStr msg)"
      using a(3,6,7) by (intro find_reply_hit) simp_all
    with a(1,8) show ?thesis
      by (simp add: snd_send_message inbound_reply)
  qed
  have wrapped: "snd (send_message W self url m) = Some (JStr msg)"
    if "msg \<noteq> []" "printable W (reply_line W (JStr msg))"
      "send_envelope W (utterance_request W self url m) url = Inr (wrap_values msg)"
    using that
      main [of "wrap_values msg" "[]" "utterance_event (JObj [(''values'', JList [JStr msg])])" "[]"
               "[(''values'', JList [JStr msg])]" "[]"]
    by (simp add: wrap_values_def utterance_event_facts)
  have plain: "snd (send_message W self url m) = Some (JStr msg)"
    if "msg \<noteq> []" "\<not> has_surrogate msg"
      "send_envelope W (utterance_request W self url m) url = Inr (wrap_values msg)"
    using that wrapped by simp
  from main wrapped plain show ?thesis by blast
qed

theorem values_round_trip_witness:
  "''hello'' \<noteq> [] \<and> \<not> has_surrogate ''hello''
   \<and> snd (send_message (world_replying (wrap_values ''hello'')) example_session ''http://agent/'' ''hi'')
       = Some (JStr ''hello'')
   \<and> snd (send_message
        (world_replying (wrap_events
           [JObj [(''eventType'', JStr ''publishManifests'')],
            utterance_event (JObj [(''values'', JList [JStr ''hello'', JStr ''more'']), (''lang'', JStr ''en'')]),
            utterance_event (JObj [(''values'', JList [JStr ''second''])])]))
        example_session ''http://agent/'' ''hi'')
       = Some (JStr ''hello'')"
proof -
  let ?ev = "utterance_event
      (JObj [(''values'', JList [JStr ''hello'', JStr ''more'']), (''lang'', JStr ''en'')])"
  let ?evs = "[JObj [(''eventType'', JStr ''publishManifests'')], ?ev,
               utterance_event (JObj [(''values'', JList [JStr ''second''])])]"
  have h: "''hello'' \<noteq> []" "\<not> has_surrogate ''hello''"
    by simp_all
  have 1: "snd (send_message (world_replying (wrap_values ''hello'')) example_session
             ''http://agent/'' ''hi'') = Some (JStr ''hello'')"
    using values_round_trip [of JNull "[]" JNull "[]" "[]" "''hello''" "[]"
            "world_replying (wrap_values ''hello'')" example_session "''http://agent/''" "''hi''",
            THEN conjunct2, THEN conjunct2] h
    by simp
  have 2: "snd (send_message (world_replying (wrap_events ?evs)) example_session
             ''http://agent/'' ''hi'') = Some (JStr ''hello'')"
    using values_round_trip [of "wrap_events ?evs"
            "[JObj [(''eventType'', JStr ''publishManifests'')]]" ?ev
            "[utterance_event (JObj [(''values'', JList [JStr ''second''])])]"
            "[(''values'', JList [JStr ''hello'', JStr ''more'']), (''lang'', JStr ''en'')]"
            "''hello''" "[JStr ''more'']"
            "world_replying (wrap_events ?evs)" example_session "''http://agent/''" "''hi''",
            THEN conjunct1] h
    by (simp add: utterance_event_facts is_object_def
                  tagged_def [of _ "JObj [(''eventType'', JStr ''publishManifests'')]"])
  from h 1 2 show ?thesis by blast
qed

subsection \<open>The three tiers of the text extraction\<close>

lemma has_truthy_tier: "has_truthy k (JObj tf) = Inr (tier_matches tf k)"
  by (simp add: has_truthy_object tier_matches_def)

lemma join_empty_sep: "join [] ss = concat ss"
  by (induction "[] :: string" ss rule: join.induct) simp_all

lemma as_strings_JStr: "as_strings (map JStr ss) = Inr ss"
  by (induction ss) simp_all

lemma token_values_tokens:
  "token_values (map token_of toks) =
   Inr (map JStr (concat (map (\<lambda>v. case v of None \<Rightarrow> [] | Some s \<Rightarrow> [s]) toks)))"
proof (induction toks)
  case Nil
  then show ?case by simp
next
  case (Cons v toks)
  then show ?case by (cases v) (simp_all add: token_of_def)
qed

lemma concat_token_strings:
  "concat (concat (map (\<lambda>v. case v of None \<Rightarrow> [] | Some s \<Rightarrow> [s]) toks)) = token_text toks"
  by (induction toks) (simp_all add: token_text_def split: option.splits)

lemma join_tokens:
  "bind (token_values (map token_of toks)) (py_join []) = Inr (JStr (token_text toks))"
  by (simp add: token_values_tokens py_join_def as_strings_JStr join_empty_sep concat_token_strings)

text \<open>
  C6. The text of a text feature is read by the first tier that matches, in the
  order \<^verbatim>\<open>values\<close>, \<^verbatim>\<open>tokens\<close>, \<^verbatim>\<open>value\<close>: the first entry of \<^verbatim>\<open>values\<close> when that is
  present and not empty, whatever the other keys hold; else the values of the tokens
  when \<^verbatim>\<open>tokens\<close> is present and not empty, joined in order with no separator, a token
  without a value adding nothing; else the bare \<^verbatim>\<open>value\<close> as a string. A text feature
  with only the tokens \<open>a\<close> and \<open>b\<close> makes \<^verbatim>\<open>send_message\<close> return \<open>ab\<close>.
\<close>

theorem text_tiers_in_order:
  "(tier_matches tf ''values''
     \<longrightarrow> extract_text W (JObj tf) = bind (py_item (JObj tf) ''values'') py_first)
   \<and> (\<not> tier_matches tf ''values'' \<and> tier_matches tf ''tokens''
     \<longrightarrow> extract_text W (JObj tf) =
         bind (py_item (JObj tf) ''tokens'') (\<lambda>tokens.
         bind (py_iter tokens) (\<lambda>ts.
         bind (token_values ts) (py_join []))))
   \<and> (\<not> tier_matches tf ''values'' \<and> \<not> tier_matches tf ''tokens''
     \<longrightarrow> extract_text W (JObj tf) =
         bind (py_get (JObj tf) ''value'' (JStr [])) (\<lambda>v. Inr (JStr (py_str W v))))
   \<and> (map_of tf ''values'' = Some (JList (x # xs))
     \<longrightarrow> extract_text W (JObj tf) = Inr x)
   \<and> (\<not> tier_matches tf ''values'' \<and> map_of tf ''tokens'' = Some (JList (map token_of toks))
        \<and> toks \<noteq> []
     \<longrightarrow> extract_text W (JObj tf) = Inr (JStr (token_text toks)))
   \<and> (\<not> tier_matches tf ''values'' \<and> \<not> tier_matches tf ''tokens''
        \<and> map_of tf ''value'' = Some (JStr s)
     \<longrightarrow> extract_text W (JObj tf) = Inr (JStr s))
   \<and> (send_envelope W (utterance_request W self url m) url =
         Inr (wrap_events [utterance_event
                (JObj [(''tokens'', JList [token_of (Some ''a''), token_of (Some ''b'')])])])
     \<longrightarrow> snd (send_message W self url m) = Some (JStr ''ab''))"
proof (intro conjI impI)
  assume "tier_matches tf ''values''"
  then show "extract_text W (JObj tf) = bind (py_item (JObj tf) ''values'') py_first"
    by (simp add: extract_text_def has_truthy_tier)
next
  assume "\<not> tier_matches tf ''values'' \<and> tier_matches tf ''tokens''"
  then show "extract_text W (JObj tf) =
         bind (py_item (JObj tf) ''tokens'') (\<lambda>tokens.
         bind (py_iter tokens) (\<lambda>ts.
         bind (token_values ts) (py_join [])))"
    by (simp add: extract_text_def has_truthy_tier)
next
  assume "\<not> tier_matches tf ''values'' \<and> \<not> tier_matches tf ''tokens''"
  then show "extract_text W (JObj tf) =
         bind (py_get (JObj tf) ''value'' (JStr [])) (\<lambda>v. Inr (JStr (py_str W v)))"
    by (simp add: extract_text_def has_truthy_tier)
next
  assume "map_of tf ''values'' = Some (JList (x # xs))"
  then show "extract_text W (JObj tf) = Inr x"
    by (simp add: extract_values)
next
  assume "\<not> tier_matches tf ''values'' \<and> map_of tf ''tokens'' = Some (JList (map token_of toks))
        \<and> toks \<noteq> []"
  then show "extract_text W (JObj tf) = Inr (JStr (token_text toks))"
    by (simp add: extract_text_def has_truthy_tier tier_matches_def [of tf "''tokens''"] join_tokens)
next
  assume "\<not> tier_matches tf ''values'' \<and> \<not> tier_matches tf ''tokens''
        \<and> map_of tf ''value'' = Some (JStr s)"
  then show "extract_text W (JObj tf) = Inr (JStr s)"
    by (simp add: extract_text_def has_truthy_tier py_str_def)
next
  let ?tf = "JObj [(''tokens'', JList [token_of (Some ''a''), token_of (Some ''b'')])]"
  assume a: "send_envelope W (utterance_request W self url m) url =
         Inr (wrap_events [utterance_event ?tf])"
  have "extract_text W ?tf = Inr (JStr (token_text [Some ''a'', Some ''b'']))"
    using join_tokens [of "[Some ''a'', Some ''b'']"]
    by (simp add: extract_text_def has_truthy_object)
  then have "uttered W (utterance_event ?tf) = Inr (JStr ''ab'')"
    by (simp add: uttered_def utterance_event_facts token_text_def)
  then have "find_reply W ([] @ utterance_event ?tf # []) = Inr (JStr ''ab'')"
    by (intro find_reply_hit) (simp_all add: utterance_event_facts)
  with a show "snd (send_message W self url m) = Some (JStr ''ab'')"
    by (simp add: snd_send_message inbound_reply [of _ "[utterance_event ?tf]"]
             del: find_reply.simps)
qed

theorem text_tiers_in_order_witness:
  "tier_matches [(''value'', JStr ''c''), (''tokens'', JList [token_of (Some ''a'')]),
                 (''values'', JList [JStr ''v''])] ''values''
   \<and> extract_text (world_replying JNull)
     (JObj [(''value'', JStr ''c''), (''tokens'', JList [token_of (Some ''a'')]),
            (''values'', JList [JStr ''v''])]) = Inr (JStr ''v'')
   \<and> extract_text (world_replying JNull)
     (JObj [(''value'', JStr ''c''),
            (''tokens'', JList (map token_of [Some ''a'', None, Some ''b''])),
            (''values'', JList [])]) = Inr (JStr ''ab'')
   \<and> extract_text (world_replying JNull)
     (JObj [(''value'', JStr ''c''), (''tokens'', JList []), (''values'', JList [])])
       = Inr (JStr ''c'')
   \<and> snd (send_message
        (world_replying (wrap_events [utterance_event
                (JObj [(''tokens'', JList [token_of (Some ''a''), token_of (Some ''b'')])])]))
        example_session ''http://agent/'' ''hi'') = Some (JStr ''ab'')"
proof -
  let ?W = "world_replying JNull"
  let ?tf1 = "[(''value'', JStr ''c''), (''tokens'', JList [token_of (Some ''a'')]),
               (''values'', JList [JStr ''v''])]"
  let ?tf2 = "[(''value'', JStr ''c''),
               (''tokens'', JList (map token_of [Some ''a'', None, Some ''b''])),
               (''values'', JList [])]"
  let ?tf3 = "[(''value'', JStr ''c''), (''tokens'', JList []), (''values'', JList [])]"
  let ?r = "wrap_events [utterance_event
              (JObj [(''tokens'', JList [token_of (Some ''a''), token_of (Some ''b'')])])]"
  have m1: "tier_matches ?tf1 ''values''"
    by (simp add: tier_matches_def)
  have 1: "extract_text ?W (JObj ?tf1) = Inr (JStr ''v'')"
    using text_tiers_in_order [of ?tf1 ?W, THEN conjunct1] m1 by simp
  have m2: "\<not> tier_matches ?tf2 ''values''"
    by (simp add: tier_matches_def)
  have 2: "extract_text ?W (JObj ?tf2) = Inr (JStr ''ab'')"
    using text_tiers_in_order [of ?tf2 ?W _ _ "[Some ''a'', None, Some ''b'']",
            THEN conjunct2, THEN conjunct2, THEN conjunct2, THEN conjunct2, THEN conjunct1] m2
    by (simp add: token_text_def)
  have m3: "\<not> tier_matches ?tf3 ''values'' \<and> \<not> tier_matches ?tf3 ''tokens''"
    by (simp add: tier_matches_def)
  have 3: "extract_text ?W (JObj ?tf3) = Inr (JStr ''c'')"
    using text_tiers_in_order [of ?tf3 ?W, THEN conjunct2, THEN conjunct2, THEN conjunct1] m3
    by (simp add: py_str_def)
  have 4: "snd (send_message (world_replying ?r) example_session ''http://agent/'' ''hi'')
             = Some (JStr ''ab'')"
    using text_tiers_in_order [of "[]" "world_replying ?r" JNull "[]" "[]" "[]"
            example_session "''http://agent/''" "''hi''",
            THEN conjunct2, THEN conjunct2, THEN conjunct2, THEN conjunct2, THEN conjunct2,
            THEN conjunct2]
    by simp
  from m1 1 2 3 4 show ?thesis by blast
qed

subsection \<open>The reply is never empty\<close>

lemma py_join_string: "py_join sep xs = Inr t \<Longrightarrow> is_string t"
  by (auto simp: py_join_def bind_eq_Inr is_string_def)

lemma extract_text_kind:
  assumes "extract_text W tf = Inr t"
  shows "is_string t \<or> bind (py_item tf ''values'') py_first = Inr t"
proof -
  from assms obtain use_values where u: "has_truthy ''values'' tf = Inr use_values"
    by (auto simp: extract_text_def bind_eq_Inr)
  show ?thesis
  proof (cases use_values)
    case True
    with assms u show ?thesis by (simp add: extract_text_def)
  next
    case False
    with assms u obtain use_tokens where t: "has_truthy ''tokens'' tf = Inr use_tokens"
      by (auto simp: extract_text_def bind_eq_Inr)
    show ?thesis
    proof (cases use_tokens)
      case True
      with assms u t \<open>\<not> use_values\<close> have "\<exists>vs. py_join [] vs = Inr t"
        by (auto simp: extract_text_def bind_eq_Inr)
      then show ?thesis by (auto dest: py_join_string)
    next
      case False
      with assms u t \<open>\<not> use_values\<close> show ?thesis
        by (auto simp: extract_text_def bind_eq_Inr is_string_def)
    qed
  qed
qed

lemma reply_of_event_Some:
  assumes "reply_of_event W ev = Inr (Some t)"
  shows "truthy t \<and> tagged ''utterance'' ev \<and> uttered W ev = Inr t"
proof -
  from assms obtain ty where ty: "py_get ev ''eventType'' JNull = Inr ty"
    by (auto simp: reply_of_event_def bind_eq_Inr)
  then have obj: "is_object ev" by (rule py_get_object)
  from assms ty have tg: "ty = JStr ''utterance''"
    by (auto simp: reply_of_event_def split: if_splits)
  from obj ty tg have "tagged ''utterance'' ev"
    by (cases ev) (auto simp: tagged_def is_object_def split: option.splits)
  moreover from assms ty tg have "truthy t \<and> uttered W ev = Inr t"
    by (auto simp: reply_of_event_def uttered_def bind_eq_Inr split: if_splits)
  ultimately show ?thesis by simp
qed

lemma find_reply_source:
  "find_reply W evs = Inr t \<Longrightarrow>
   t = JStr no_response \<or> (\<exists>ev\<in>set evs. tagged ''utterance'' ev \<and> uttered W ev = Inr t \<and> truthy t)"
proof (induction evs)
  case Nil
  then show ?case by simp
next
  case (Cons ev evs)
  show ?case
  proof (cases "reply_of_event W ev")
    case (Inl e)
    with Cons.prems show ?thesis by simp
  next
    case (Inr found)
    show ?thesis
    proof (cases found)
      case None
      with Inr Cons show ?thesis by auto
    next
      case (Some t')
      with Inr Cons.prems have "t' = t" by simp
      with Inr Some show ?thesis by (auto dest: reply_of_event_Some)
    qed
  qed
qed

lemma truthy_no_response: "truthy (JStr no_response)"
  by (simp add: no_response_def)

lemma reply_of_response_Some:
  "reply_of_response W r = Inr (Some t) \<Longrightarrow>
   \<exists>evs. events_of_response r = Inr evs \<and> find_reply W evs = Inr t"
  by (auto simp: reply_of_response_def events_of_response_def bind_eq_Inr split: if_splits)

lemma digit_char_5: "digit_char 5 = CHR ''5''"
  by code_simp

lemma reply_line_5:
  "reply_line W (JInt 5) = [CHR 0xF0, CHR 0x9F, CHR 0x93, CHR 0xA8] @ '' Agent replied: 5''"
  by (simp add: reply_line_def py_str_def str_int_def digits_of.simps digit_char_5)

text \<open>
  C10 says that every result of \<^verbatim>\<open>send_message\<close> other than \<^verbatim>\<open>None\<close> is a string that is
  not empty. The code breaks that for a first entry of \<^verbatim>\<open>values\<close> that is no string:
  it returns the entry as it is, against its own return type \<^verbatim>\<open>Optional[str]\<close> and
  unlike the bare-value tier beside it, which goes through \<^verbatim>\<open>str\<close>. For the response
  whose \<^verbatim>\<open>values\<close> holds the number 5, the result is the number 5.
\<close>

theorem integer_reply_returned:
  "snd (send_message
          (world_replying (wrap_events [utterance_event (JObj [(''values'', JList [JInt 5])])]))
          example_session ''http://agent/'' ''hi'') = Some (JInt 5)
   \<and> \<not> is_string (JInt 5)"
proof -
  let ?W = "world_replying (wrap_events [utterance_event (JObj [(''values'', JList [JInt 5])])])"
  let ?ev = "utterance_event (JObj [(''values'', JList [JInt 5])])"
  have "uttered ?W ?ev = Inr (JInt 5)"
    by (simp add: uttered_def utterance_event_facts extract_values)
  moreover have "printable ?W (reply_line ?W (JInt 5))"
    by (simp add: printable_def reply_line_5)
  ultimately have "find_reply ?W ([] @ ?ev # []) = Inr (JInt 5)"
    by (intro find_reply_hit) (simp_all add: utterance_event_facts)
  then have "snd (send_message ?W example_session ''http://agent/'' ''hi'') = Some (JInt 5)"
    by (simp add: snd_send_message inbound_reply [of _ "[?ev]"] del: find_reply.simps)
  then show ?thesis by (simp add: is_string_def)
qed

lemma reply_truthy:
  assumes a: "snd (send_message W self url m) = Some t"
  shows "truthy t \<and> t \<noteq> JStr []"
proof -
  from a obtain r' where r': "send_envelope W (utterance_request W self url m) url = Inr r'"
    by (cases "send_envelope W (utterance_request W self url m) url")
       (simp_all add: snd_send_message)
  with a have "reply_of_response W r' = Inr (Some t)"
    by (cases "reply_of_response W r'") (simp_all add: snd_send_message)
  then obtain evs where "find_reply W evs = Inr t"
    by (auto dest: reply_of_response_Some)
  from find_reply_source [OF this] have "truthy t"
    using truthy_no_response by auto
  then show ?thesis by auto
qed

lemma reply_source:
  assumes a: "send_envelope W (utterance_request W self url m) url = Inr r
        \<and> snd (send_message W self url m) = Some t"
  shows "t = JStr no_response
          \<or> (\<exists>evs. events_of_response r = Inr evs
                \<and> (\<exists>ev\<in>set evs. tagged ''utterance'' ev \<and> uttered W ev = Inr t))"
proof -
  from a have e1: "send_envelope W (utterance_request W self url m) url = Inr r"
    and e2: "snd (send_message W self url m) = Some t"
    by simp_all
  from e2 have "reply_of_response W r = Inr (Some t)"
    by (cases "reply_of_response W r") (simp_all add: snd_send_message e1)
  then obtain evs where e: "events_of_response r = Inr evs" "find_reply W evs = Inr t"
    by (auto dest: reply_of_response_Some)
  from find_reply_source [OF e(2)] e(1) show ?thesis by auto
qed

lemma uttered_kind:
  assumes "uttered W ev = Inr t"
  shows "is_string t
          \<or> (\<exists>tf. text_feature_of ev = Inr tf
                \<and> bind (py_item tf ''values'') py_first = Inr t)"
proof -
  from assms obtain tf where "text_feature_of ev = Inr tf" "extract_text W tf = Inr t"
    by (auto simp: uttered_def bind_eq_Inr)
  then show ?thesis by (auto dest: extract_text_kind)
qed

text \<open>
  What does hold of every result of \<^verbatim>\<open>send_message\<close> other than \<^verbatim>\<open>None\<close>: it is true as
  a condition, so it is never the empty string, also when an utterance event is
  there whose text is empty. It is \<^verbatim>\<open>"Agent sent no response"\<close> or the text extracted
  from an inbound event tagged \<^verbatim>\<open>utterance\<close>; and an extracted text is a string unless it
  is the first entry of the \<^verbatim>\<open>values\<close> of the text feature.
\<close>

theorem reply_is_never_empty:
  "(snd (send_message W self url m) = Some t \<longrightarrow> truthy t \<and> t \<noteq> JStr [])
   \<and> (send_envelope W (utterance_request W self url m) url = Inr r
        \<and> snd (send_message W self url m) = Some t
      \<longrightarrow> t = JStr no_response
          \<or> (\<exists>evs. events_of_response r = Inr evs
                \<and> (\<exists>ev\<in>set evs. tagged ''utterance'' ev \<and> uttered W ev = Inr t)))
   \<and> (uttered W ev = Inr t
      \<longrightarrow> is_string t
          \<or> (\<exists>tf. text_feature_of ev = Inr tf
                \<and> bind (py_item tf ''values'') py_first = Inr t))"
  using reply_truthy [of W self url m t] reply_source [of W self url m r t] uttered_kind [of W ev t]
  by blast

theorem reply_is_never_empty_witness:
  "snd (send_message (world_replying (wrap_values ''hello'')) example_session ''http://agent/'' ''hi'')
     = Some (JStr ''hello'')
   \<and> truthy (JStr ''hello'')
   \<and> uttered (world_replying (wrap_values ''hello''))
        (utterance_event (JObj [(''values'', JList [JStr ''hello''])])) = Inr (JStr ''hello'')
   \<and> (JStr ''hello'' = JStr no_response
        \<or> (\<exists>evs. events_of_response (wrap_values ''hello'') = Inr evs
              \<and> (\<exists>ev\<in>set evs. tagged ''utterance'' ev
                    \<and> uttered (world_replying (wrap_values ''hello'')) ev = Inr (JStr ''hello''))))
   \<and> is_string (JStr ''hello'')"
proof -
  let ?W = "world_replying (wrap_values ''hello'')"
  let ?ev = "utterance_event (JObj [(''values'', JList [JStr ''hello''])])"
  have s: "snd (send_message ?W example_session ''http://agent/'' ''hi'') = Some (JStr ''hello'')"
    by (simp add: snd_send_message wrap_values_def inbound_reply reply_of_event_def
                  utterance_event_def text_feature_of_def extract_text_def has_truthy_object)
  have u: "uttered ?W ?ev = Inr (JStr ''hello'')"
    by (simp add: uttered_def utterance_event_facts extract_text_def has_truthy_object)
  note t = reply_is_never_empty [of ?W example_session "''http://agent/''" "''hi''"
             "JStr ''hello''" "wrap_values ''hello''" ?ev]
  from t s have 1: "truthy (JStr ''hello'')" by blast
  from t s have 2: "JStr ''hello'' = JStr no_response
        \<or> (\<exists>evs. events_of_response (wrap_values ''hello'') = Inr evs
              \<and> (\<exists>ev\<in>set evs. tagged ''utterance'' ev
                    \<and> uttered ?W ev = Inr (JStr ''hello'')))"
    by simp
  have 3: "is_string (JStr ''hello'')" by (simp add: is_string_def)
  from s 1 u 2 3 show ?thesis by blast
qed

subsection \<open>Display of a manifest without identification\<close>

lemma digit_char_1: "digit_char (Suc 0) = CHR ''1''"
  by code_simp

lemma digits_of_1: "digits_of (Suc 0) = ''1''"
  by (simp add: digits_of.simps digit_char_1)

lemma header_line_0:
  "header_line 0 = [CHR 0x0A, CHR 0xF0, CHR 0x9F, CHR 0x93, CHR 0x8B] @ '' Manifest 1:''"
  by (simp add: header_line_def digits_of_1)

lemma identification_absent:
  "map_of kvs ''identification'' = None \<Longrightarrow> identification_lines W (JObj kvs) = Inr []"
  by (simp add: identification_lines_def)

lemma capabilities_absent:
  "map_of kvs ''capabilities'' = None \<Longrightarrow> capabilities_lines W (JObj kvs) = Inr []"
  by (simp add: capabilities_lines_def)

lemma field_line_shown:
  "field_line W label (JObj ident) k d = Inr (label @ shown W ident k d)"
  by (simp add: field_line_def shown_def py_str_def split: option.splits)

lemma identification_present:
  "map_of kvs ''identification'' = Some (JObj ident) \<Longrightarrow> ident \<noteq> [] \<Longrightarrow>
   identification_lines W (JObj kvs) =
     Inr [''  Name: '' @ shown W ident ''conversationalName'' ''Unknown'',
          ''  Organization: '' @ shown W ident ''organization'' ''Unknown'',
          ''  Description: '' @ shown W ident ''synopsis'' ''No description'',
          ''  Speaker URI: '' @ shown W ident ''speakerUri'' ''Unknown'']"
  by (simp add: identification_lines_def field_line_shown)

lemma identification_none:
  "\<not> has_block kvs ''identification'' \<Longrightarrow> identification_lines W (JObj kvs) = Inr []"
  by (simp add: identification_lines_def has_block_def split: option.splits)

lemma capabilities_none:
  "\<not> has_block kvs ''capabilities'' \<Longrightarrow> capabilities_lines W (JObj kvs) = Inr []"
  by (simp add: capabilities_lines_def has_block_def split: option.splits)

lemma identification_no_object:
  "map_of kvs ''identification'' = Some v \<Longrightarrow> truthy v \<Longrightarrow> \<not> is_object v \<Longrightarrow>
   identification_lines W (JObj kvs) = Inl AttributeError"
  by (cases v) (simp_all add: identification_lines_def field_line_def is_object_def)

lemma format_single:
  "format_manifest W (JList [manifest]) =
   bind (manifest_lines W 0 manifest) (\<lambda>ls. Inr (join [CHR 0x0A] ls))"
  by (cases "manifest_lines W 0 manifest") (simp_all add: format_manifest_def)

text \<open>
  C4 as it is worded: for one manifest with no identification block, the output
  shows the default labels \<^verbatim>\<open>Unknown\<close> and \<^verbatim>\<open>No description\<close>. It does not: for the
  manifest \<^verbatim>\<open>{}\<close> the output is the header line alone, and neither label occurs in it.
\<close>

theorem format_defaults_counterexample:
  "format_manifest (world_replying JNull) (JList [JObj []])
     = Inr ([CHR 0x0A, CHR 0xF0, CHR 0x9F, CHR 0x93, CHR 0x8B] @ '' Manifest 1:'')
   \<and> \<not> occurs_in ''Unknown'' ([CHR 0x0A, CHR 0xF0, CHR 0x9F, CHR 0x93, CHR 0x8B] @ '' Manifest 1:'')
   \<and> \<not> occurs_in ''No description''
         ([CHR 0x0A, CHR 0xF0, CHR 0x9F, CHR 0x93, CHR 0x8B] @ '' Manifest 1:'')"
  by (simp add: format_single manifest_lines_def identification_absent capabilities_absent
                header_line_0)

text \<open>
  C4, amended. \<^verbatim>\<open>format_manifest\<close> of the empty list is \<^verbatim>\<open>"No manifests available"\<close>. For
  one manifest dictionary: when the identification block is absent or empty, the
  output has no identification line; it is the header line followed by the lines of
  the capabilities, and the header line alone, without failing, when the capabilities
  are absent or empty too. When the identification block is a dictionary that is not
  empty, its four lines follow the header line, whatever the capabilities are, and a
  field that is absent is shown by its default label, \<^verbatim>\<open>Unknown\<close> or
  \<^verbatim>\<open>No description\<close>. An identification value that is true and no dictionary makes
  \<^verbatim>\<open>format_manifest\<close> fail.
\<close>

theorem format_manifest_labels:
  "format_manifest W (JList []) = Inr ''No manifests available''
   \<and> (\<not> has_block kvs ''identification''
      \<longrightarrow> format_manifest W (JList [JObj kvs]) =
          bind (capabilities_lines W (JObj kvs)) (\<lambda>caps.
            Inr (join [CHR 0x0A] (header_line 0 # caps))))
   \<and> (\<not> has_block kvs ''identification'' \<and> \<not> has_block kvs ''capabilities''
      \<longrightarrow> format_manifest W (JList [JObj kvs]) = Inr (header_line 0))
   \<and> (map_of kvs ''identification'' = Some (JObj ident) \<and> ident \<noteq> []
      \<longrightarrow> format_manifest W (JList [JObj kvs]) =
          bind (capabilities_lines W (JObj kvs)) (\<lambda>caps.
            Inr (join [CHR 0x0A]
              (header_line 0 #
               [''  Name: '' @ shown W ident ''conversationalName'' ''Unknown'',
                ''  Organization: '' @ shown W ident ''organization'' ''Unknown'',
                ''  Description: '' @ shown W ident ''synopsis'' ''No description'',
                ''  Speaker URI: '' @ shown W ident ''speakerUri'' ''Unknown''] @ caps))))
   \<and> (map_of ident k = None \<longrightarrow> shown W ident k d = d)
   \<and> (map_of ident k = Some (JStr v) \<longrightarrow> shown W ident k d = v)
   \<and> (map_of kvs ''identification'' = Some x \<and> truthy x \<and> \<not> is_object x
      \<longrightarrow> format_manifest W (JList [JObj kvs]) = Inl AttributeError)"
proof (intro conjI impI)
  show "format_manifest W (JList []) = Inr ''No manifests available''"
    by (simp add: format_manifest_def)
next
  assume "\<not> has_block kvs ''identification''"
  then show "format_manifest W (JList [JObj kvs]) =
          bind (capabilities_lines W (JObj kvs)) (\<lambda>caps.
            Inr (join [CHR 0x0A] (header_line 0 # caps)))"
    by (cases "capabilities_lines W (JObj kvs)")
       (simp_all add: format_single manifest_lines_def identification_none)
next
  assume "\<not> has_block kvs ''identification'' \<and> \<not> has_block kvs ''capabilities''"
  then show "format_manifest W (JList [JObj kvs]) = Inr (header_line 0)"
    by (simp add: format_single manifest_lines_def identification_none capabilities_none)
next
  assume "map_of kvs ''identification'' = Some (JObj ident) \<and> ident \<noteq> []"
  then show "format_manifest W (JList [JObj kvs]) =
          bind (capabilities_lines W (JObj kvs)) (\<lambda>caps.
            Inr (join [CHR 0x0A]
              (header_line 0 #
               [''  Name: '' @ shown W ident ''conversationalName'' ''Unknown'',
                ''  Organization: '' @ shown W ident ''organization'' ''Unknown'',
                ''  Description: '' @ shown W ident ''synopsis'' ''No description'',
                ''  Speaker URI: '' @ shown W ident ''speakerUri'' ''Unknown''] @ caps)))"
    by (cases "capabilities_lines W (JObj kvs)")
       (simp_all add: format_single manifest_lines_def identification_present)
next
  assume "map_of ident k = None"
  then show "shown W ident k d = d" by (simp add: shown_def)
next
  assume "map_of ident k = Some (JStr v)"
  then show "shown W ident k d = v" by (simp add: shown_def py_str_def)
next
  assume "map_of kvs ''identification'' = Some x \<and> truthy x \<and> \<not> is_object x"
  then show "format_manifest W (JList [JObj kvs]) = Inl AttributeError"
    by (simp add: format_single manifest_lines_def identification_no_object)
qed

theorem format_manifest_labels_witness:
  "\<not> has_block [(''identification'', JObj []), (''capabilities'', JList [])] ''identification''
   \<and> format_manifest (world_replying JNull)
        (JList [JObj [(''identification'', JObj []), (''capabilities'', JList [])]])
     = Inr (header_line 0)
   \<and> format_manifest (world_replying JNull) (JList [JObj []]) = Inr (header_line 0)
   \<and> format_manifest (world_replying JNull)
        (JList [JObj [(''identification'', JObj [(''conversationalName'', JStr ''Ada'')])]])
     = Inr (join [CHR 0x0A]
            [header_line 0, ''  Name: Ada'', ''  Organization: Unknown'',
             ''  Description: No description'', ''  Speaker URI: Unknown''])
   \<and> format_manifest (world_replying JNull) (JList [JObj [(''identification'', JInt 7)]])
     = Inl AttributeError"
proof -
  let ?W = "world_replying JNull"
  let ?k1 = "[(''identification'', JObj []), (''capabilities'', JList [])]"
  let ?id = "[(''conversationalName'', JStr ''Ada'')]"
  have b1: "\<not> has_block ?k1 ''identification''" "\<not> has_block ?k1 ''capabilities''"
    by (simp_all add: has_block_def)
  have b2: "\<not> has_block [] ''identification''" "\<not> has_block [] ''capabilities''"
    by (simp_all add: has_block_def)
  have 1: "format_manifest ?W (JList [JObj ?k1]) = Inr (header_line 0)"
    using format_manifest_labels [of ?W ?k1, THEN conjunct2, THEN conjunct2, THEN conjunct1] b1
    by simp
  have 2: "format_manifest ?W (JList [JObj []]) = Inr (header_line 0)"
    using format_manifest_labels [of ?W "[]", THEN conjunct2, THEN conjunct1] b2
    by (simp add: capabilities_none)
  have s1: "shown ?W ?id ''conversationalName'' ''Unknown'' = ''Ada''"
    using format_manifest_labels [of ?W "[]" "?id" "''conversationalName''" "''Unknown''" "''Ada''",
            THEN conjunct2, THEN conjunct2, THEN conjunct2, THEN conjunct2, THEN conjunct2,
            THEN conjunct1]
    by simp
  have s2: "shown ?W ?id ''organization'' ''Unknown'' = ''Unknown''"
    "shown ?W ?id ''synopsis'' ''No description'' = ''No description''"
    "shown ?W ?id ''speakerUri'' ''Unknown'' = ''Unknown''"
    using format_manifest_labels [of ?W "[]" "?id" "''organization''" "''Unknown''",
            THEN conjunct2, THEN conjunct2, THEN conjunct2, THEN conjunct2, THEN conjunct1]
          format_manifest_labels [of ?W "[]" "?id" "''synopsis''" "''No description''",
            THEN conjunct2, THEN conjunct2, THEN conjunct2, THEN conjunct2, THEN conjunct1]
          format_manifest_labels [of ?W "[]" "?id" "''speakerUri''" "''Unknown''",
            THEN conjunct2, THEN conjunct2, THEN conjunct2, THEN conjunct2, THEN conjunct1]
    by simp_all
  have 3: "format_manifest ?W (JList [JObj [(''identification'', JObj ?id)]])
     = Inr (join [CHR 0x0A]
            [header_line 0, ''  Name: Ada'', ''  Organization: Unknown'',
             ''  Description: No description'', ''  Speaker URI: Unknown''])"
    using format_manifest_labels [of ?W "[(''identification'', JObj ?id)]" ?id,
            THEN conjunct2, THEN conjunct2, THEN conjunct2, THEN conjunct1]
    by (simp add: s1 s2 capabilities_absent)
  have 4: "format_manifest ?W (JList [JObj [(''identification'', JInt 7)]]) = Inl AttributeError"
    using format_manifest_labels [of ?W "[(''identification'', JInt 7)]" _ _ _ _ "JInt 7",
            THEN conjunct2, THEN conjunct2, THEN conjunct2, THEN conjunct2, THEN conjunct2,
            THEN conjunct2]
    by (simp add: is_object_def)
  from b1(1) 1 2 3 4 show ?thesis by blast
qed

subsection \<open>The conversation reference of a posted envelope\<close>

text \<open>
  C1 says that the envelope posted by \<^verbatim>\<open>get_manifest\<close> and \<^verbatim>\<open>send_message\<close> carries the
  conversation identifier of the session. The code does not do that:
  \<^verbatim>\<open>_create_envelope\<close> calls \<^verbatim>\<open>Conversation()\<close> with no argument, so the conversation of
  the envelope is the package's default and the field \<^verbatim>\<open>conversation_id\<close> is never read.
  Two sessions with different conversation identifiers post the same envelopes, and
  an agent that answers with the identifier it was posted shows the package's
  default, not the identifier of the example session.
\<close>

theorem envelope_ignores_conversation_id:
  "conversation_id (init h1 ''1a2b3c4d'' sp sv) = ''conv_1a2b3c4d''
   \<and> conversation_id (init h1 ''5e6f7a8b'' sp sv) = ''conv_5e6f7a8b''
   \<and> manifest_request W (init h1 ''1a2b3c4d'' sp sv) url
       = manifest_request W (init h1 ''5e6f7a8b'' sp sv) url
   \<and> utterance_request W (init h1 ''1a2b3c4d'' sp sv) url m
       = utterance_request W (init h1 ''5e6f7a8b'' sp sv) url m
   \<and> conversation (manifest_request W (init h1 ''1a2b3c4d'' sp sv) url) = new_conversation W
   \<and> conversation (utterance_request W (init h1 ''1a2b3c4d'' sp sv) url m) = new_conversation W
   \<and> conversation_id example_session = ''conv_1a2b3c4d''
   \<and> snd (get_manifest world_echoing example_session ''http://agent/'')
       = Some (JList [JStr ''conv:6f1c2d3e''])
   \<and> snd (send_message world_echoing example_session ''http://agent/'' ''hi'')
       = Some (JStr ''conv:6f1c2d3e'')"
  by (simp add: snd_get_manifest snd_send_message send_envelope_def world_echoing_def
                manifest_request_def utterance_request_def create_envelope_def
                example_session_def init_def
                inbound_manifests inbound_reply manifests_of_event_def reply_of_event_def
                publish_event_def utterance_event_def text_feature_of_def extract_text_def
                has_truthy_object raises_for_status_def)

end
